theory Spec2Isabelle
  imports Main "HOL-Library.Word"
begin

unbundle bit_operations_syntax

section \<open>The deferred-transaction contract of the ledger\<close>

text \<open>
  A shallow embedding of the deferred contract (\<^verbatim>\<open>contractDeferred\<close>: Spawn, Invoke,
  Delete, VerifyInstruction and \<^verbatim>\<open>hashDeferred\<close>) and of the contract registry.
  Go's multiple return values \<^verbatim>\<open>(sc, cout, err)\<close> are kept as a triple whose last
  component is the error (\<open>None\<close> is \<^verbatim>\<open>nil\<close>); a nil slice is the empty list. A run-time
  panic of the Go code (an index out of range, a nil pointer) is a result of its own.
\<close>

subsection \<open>Bytes and the standard library\<close>

type_synonym byte = "8 word"
type_synonym bytes = "byte list"

text \<open>\<^verbatim>\<open>[]byte(s)\<close> for a Go string.\<close>

definition bytesOf :: "string \<Rightarrow> bytes" where
  "bytesOf s = map of_char s"

text \<open>\<^verbatim>\<open>binary.LittleEndian.PutUint64\<close> into a fresh buffer of 8 bytes.\<close>

definition PutUint64 :: "64 word \<Rightarrow> bytes" where
  "PutUint64 v = map (\<lambda>k. ucast (drop_bit (8 * k) v)) [0..<8]"

text \<open>
  \<^verbatim>\<open>binary.LittleEndian.Uint32\<close> reads the first four bytes; on a shorter buffer Go panics,
  which the callers below check before they call it.
\<close>

definition Uint32 :: "bytes \<Rightarrow> 32 word" where
  "Uint32 b = ucast (b ! 0) OR push_bit 8 (ucast (b ! 1))
     OR push_bit 16 (ucast (b ! 2)) OR push_bit 24 (ucast (b ! 3))"

text \<open>
  \<^verbatim>\<open>strconv.ParseUint(s, 10, 64)\<close>: a non-empty run of decimal digits whose value fits
  64 bits; no sign, no underscore.
\<close>

definition digitVal :: "byte \<Rightarrow> nat option" where
  "digitVal b = (if 48 \<le> b \<and> b \<le> 57 then Some (unat b - 48) else None)"

fun parseDigits :: "bytes \<Rightarrow> nat \<Rightarrow> nat option" where
  "parseDigits [] acc = Some acc"
| "parseDigits (b # bs) acc =
     (case digitVal b of None \<Rightarrow> None | Some d \<Rightarrow> parseDigits bs (acc * 10 + d))"

definition ParseUint :: "bytes \<Rightarrow> 64 word option" where
  "ParseUint s =
     (if s = [] then None
      else case parseDigits s 0 of
             None \<Rightarrow> None
           | Some n \<Rightarrow> if n < 2 ^ 64 then Some (of_nat n) else None)"

subsection \<open>Instructions\<close>

text \<open>
  Modelled from the spec: the declarations of \<^verbatim>\<open>byzcoin.Instruction\<close>, \<^verbatim>\<open>Argument\<close> and
  \<^verbatim>\<open>darc.Identity\<close> are not part of the sources. An instruction is addressed to an
  instance identifier, has one of the kinds Spawn, Invoke and Delete (a closed tagged
  union: the target contract identifier, the command of an Invoke, and the named
  byte-valued arguments in stored order), and carries the signer identities and
  signatures supplied by callers. An identity is kept in its printed form; how two
  identities compare and how one verifies a signature is left to the collaborators below.
  The value of an argument that arrived in an instruction is never the nil slice, so
  \<^verbatim>\<open>Search\<close> returns nil exactly when no argument has the name.
\<close>

record Argument =
  Name :: string
  Value :: bytes

type_synonym Arguments = "Argument list"

type_synonym Identity = string

datatype Body =
    Spawn (spawn_ContractID: string) (spawn_Args: Arguments)
  | Invoke (invoke_ContractID: string) (Command: string) (invoke_Args: Arguments)
  | Delete (delete_ContractID: string)

record Instruction =
  InstanceID :: bytes
  body :: Body
  SignerCounter :: "64 word list"
  SignerIdentities :: "Identity list"
  Signatures :: "bytes list"

datatype InstrType = SpawnType | InvokeType | DeleteType

definition GetType :: "Instruction \<Rightarrow> InstrType" where
  "GetType instr =
     (case body instr of Spawn _ _ \<Rightarrow> SpawnType | Invoke _ _ _ \<Rightarrow> InvokeType | Delete _ \<Rightarrow> DeleteType)"

text \<open>\<^verbatim>\<open>Arguments.Search\<close>: the value of the first argument of that name.\<close>

fun Search :: "Arguments \<Rightarrow> string \<Rightarrow> bytes option" where
  "Search [] name = None"
| "Search (a # as) name = (if Name a = name then Some (Value a) else Search as name)"

text \<open>Where the code uses the result of \<^verbatim>\<open>Search\<close> as a byte string, nil is empty.\<close>

definition orNil :: "bytes option \<Rightarrow> bytes" where
  "orNil v = (case v of None \<Rightarrow> [] | Some b \<Rightarrow> b)"

subsection \<open>The canonical hash of a proposed instruction\<close>

text \<open>
  \<^verbatim>\<open>hashDeferred\<close>. The writes to the running SHA-256 state are kept as the byte string
  written so far; the digest \<^verbatim>\<open>h.Sum(nil)\<close> of that string is the parameter \<open>sha\<close>.
  The loop over the arguments is \<open>writeArgs\<close>.
\<close>

fun writeArgs :: "bytes \<Rightarrow> Arguments \<Rightarrow> bytes" where
  "writeArgs h [] = h"
| "writeArgs h (a # as) =
     (let nameBuf = bytesOf (Name a);
          nameLenBuf = PutUint64 (of_nat (length nameBuf));
          h = h @ nameLenBuf;
          h = h @ nameBuf;
          valueLenBuf = PutUint64 (of_nat (length (Value a)));
          h = h @ valueLenBuf;
          h = h @ Value a
      in writeArgs h as)"

definition hashDeferred :: "(bytes \<Rightarrow> bytes) \<Rightarrow> Instruction \<Rightarrow> bytes \<Rightarrow> bytes" where
  "hashDeferred sha instr instanceID =
     (let h = InstanceID instr;
          (h, args) =
            (case GetType instr of
               SpawnType \<Rightarrow> ((h @ [0]) @ bytesOf (spawn_ContractID (body instr)), spawn_Args (body instr))
             | InvokeType \<Rightarrow> ((h @ [1]) @ bytesOf (invoke_ContractID (body instr)), invoke_Args (body instr))
             | DeleteType \<Rightarrow> ((h @ [2]) @ bytesOf (delete_ContractID (body instr)), []));
          h = writeArgs h args;
          h = h @ instanceID
      in sha h)"

text \<open>
  The reference definition, following the words of the specification: the instruction's
  own target-instance identifier; a one-byte kind tag; the target contract identifier
  string; for each argument in stored order the name's length and bytes and the value's
  length and bytes; finally the binding identifier. It is written on its own, with none
  of the code's helpers: the bytes of a string are the codes of its characters, and a
  length is a field of 8 bytes, the digits of the number to the base 256, the least
  significant first.
\<close>

definition kindTag :: "Body \<Rightarrow> byte" where
  "kindTag b = (case b of Spawn _ _ \<Rightarrow> 0 | Invoke _ _ _ \<Rightarrow> 1 | Delete _ \<Rightarrow> 2)"

definition targetContractID :: "Body \<Rightarrow> string" where
  "targetContractID b = (case b of Spawn c _ \<Rightarrow> c | Invoke c _ _ \<Rightarrow> c | Delete c \<Rightarrow> c)"

definition storedArgs :: "Body \<Rightarrow> Arguments" where
  "storedArgs b = (case b of Spawn _ as \<Rightarrow> as | Invoke _ _ as \<Rightarrow> as | Delete _ \<Rightarrow> [])"

definition stringBytes :: "string \<Rightarrow> bytes" where
  "stringBytes str = map (\<lambda>ch. of_nat (of_char ch :: nat)) str"

definition lengthField :: "nat \<Rightarrow> bytes" where
  "lengthField n = map (\<lambda>k. of_nat (n div 256 ^ k mod 256)) [0..<8]"

definition argumentFeed :: "Argument \<Rightarrow> bytes" where
  "argumentFeed a =
     lengthField (length (Name a)) @ stringBytes (Name a) @ lengthField (length (Value a)) @ Value a"

definition canonicalFeed :: "Instruction \<Rightarrow> bytes \<Rightarrow> bytes" where
  "canonicalFeed instr binding =
     InstanceID instr @ [kindTag (body instr)] @ stringBytes (targetContractID (body instr))
       @ concat (map argumentFeed (storedArgs (body instr))) @ binding"

definition canonicalHash_spec :: "(bytes \<Rightarrow> bytes) \<Rightarrow> Instruction \<Rightarrow> bytes \<Rightarrow> bytes" where
  "canonicalHash_spec sha instr binding = sha (canonicalFeed instr binding)"

subsection \<open>Errors, state changes and the collaborators\<close>

text \<open>
  One constructor per error message of the contract; \<open>ExternalError\<close> is an error
  reported by a collaborator (the state trie, the authorization check, a target contract).
\<close>

datatype error =
    ExternalError string
  | CouldntUnmarshalInstanceData
  | CouldntDecodeProposedTransaction
  | CouldntConvertExpireBlockIndex
  | CouldntParseNumExecution
  | CouldntEncodeDeferredDataSpawn
  | IndexArgsNil
  | IndexOutOfRange "32 word" nat
  | IdentityArgsNil
  | CouldntDecodeIdentity
  | SignatureArgsNil
  | CouldntEncodeDeferredData
  | CouldntGetRootFunction
  | CouldntEncodeRootInstruction
  | CouldntGetRootContract
  | VerifyingInstructionFailed error
  | ErrorWhileExecuting error
  | CouldntEncodeResult
  | OnlyAddProofAndExec
  | MaxExecutionsReached
  | BlockIndexTooHigh "64 word" "64 word"
  | IdentityAlreadyStored
  | BadSignature

datatype panic = IndexOutOfRangePanic | NilPointerPanic

datatype 'a outcome = Returns 'a | Panics panic

datatype StateAction = Create | Update | Remove

record StateChange =
  Action :: StateAction
  sc_InstanceID :: bytes
  sc_ContractID :: string
  sc_Value :: bytes
  sc_DarcID :: bytes

definition NewStateChange :: "StateAction \<Rightarrow> bytes \<Rightarrow> string \<Rightarrow> bytes \<Rightarrow> bytes \<Rightarrow> StateChange" where
  "NewStateChange sa iID contractID v darcID =
     \<lparr>Action = sa, sc_InstanceID = iID, sc_ContractID = contractID, sc_Value = v, sc_DarcID = darcID\<rparr>"

record Coin =
  coin_Name :: bytes
  coin_Value :: "64 word"

text \<open>What a contract method returns: \<^verbatim>\<open>(sc, cout, err)\<close>.\<close>

type_synonym result = "StateChange list \<times> Coin list \<times> error option"

text \<open>
  A Go slice is handed over with its backing array: the contract that is called can write
  into the elements of the coin slice of its caller (as \<^verbatim>\<open>ContractWrite.Spawn\<close> does with
  \<^verbatim>\<open>cout[i] = coin\<close> after \<^verbatim>\<open>cout = coins\<close>), though it cannot change the length of the
  caller's slice. A call of a target contract therefore yields, before its three return
  values, the coins it leaves in the slice it was handed; \<open>leftInSlice\<close> is what the
  caller then finds in its slice.
\<close>

type_synonym called = "Coin list \<times> StateChange list \<times> Coin list \<times> error option"

definition leftInSlice :: "Coin list \<Rightarrow> Coin list \<Rightarrow> Coin list" where
  "leftInSlice coins written = take (length coins) (written @ drop (length written) coins)"

text \<open>
  \<^verbatim>\<open>byzcoin.ReadOnlyStateTrie\<close>: \<^verbatim>\<open>GetValues\<close> returns the value, the version, the contract
  identifier and the darc identifier of an instance, or an error; \<^verbatim>\<open>GetIndex\<close> is the
  current block index, a Go \<^verbatim>\<open>int\<close>.
\<close>

record ReadOnlyStateTrie =
  GetValues :: "bytes \<Rightarrow> error + (bytes \<times> 64 word \<times> string \<times> bytes)"
  GetIndex :: int

text \<open>\<^verbatim>\<open>byzcoin.Contract\<close>, as far as the deferred contract calls a target contract.\<close>

record Contract =
  VerifyDeferredInstruction :: "ReadOnlyStateTrie \<Rightarrow> Instruction \<Rightarrow> bytes \<Rightarrow> error option"
  contract_Spawn :: "ReadOnlyStateTrie \<Rightarrow> Instruction \<Rightarrow> Coin list \<Rightarrow> called"
  contract_Invoke :: "ReadOnlyStateTrie \<Rightarrow> Instruction \<Rightarrow> Coin list \<Rightarrow> called"
  contract_Delete :: "ReadOnlyStateTrie \<Rightarrow> Instruction \<Rightarrow> Coin list \<Rightarrow> called"

subsection \<open>The contract registry\<close>

type_synonym ContractFn = "bytes \<Rightarrow> error + Contract"

type_synonym ContractRegistry = "string \<rightharpoonup> ContractFn"

definition NewContractRegistry :: ContractRegistry where
  "NewContractRegistry = Map.empty"

definition RegisterContract :: "ContractRegistry \<Rightarrow> string \<Rightarrow> ContractFn \<Rightarrow> ContractRegistry" where
  "RegisterContract c contractName contractFn = c(contractName \<mapsto> contractFn)"

definition GetContractConstructor :: "ContractRegistry \<Rightarrow> string \<Rightarrow> ContractFn option" where
  "GetContractConstructor c contractName = c contractName"

subsection \<open>The data of a deferred instance\<close>

record ClientTransaction =
  Instructions :: "Instruction list"

record deferredData =
  ProposedTransaction :: ClientTransaction
  ExpireBlockIndex :: "64 word"
  InstructionHashes :: "bytes list"
  NumExecution :: "64 word"
  ExecResult :: "bytes list"

definition ContractDeferredID :: string where
  "ContractDeferredID = ''deferred''"

definition defaultNumExecution :: "64 word" where
  "defaultNumExecution = 1"

text \<open>
  What the contract takes from outside the sources: SHA-256, \<^verbatim>\<open>Instruction.DeriveID\<close>, the
  protobuf encoders and decoders, \<^verbatim>\<open>BasicContract.VerifyInstruction\<close>, the two operations
  of \<^verbatim>\<open>darc.Identity\<close>, and the registry of the service.
\<close>

record Service =
  sha256 :: "bytes \<Rightarrow> bytes"
  DeriveID :: "Instruction \<Rightarrow> string \<Rightarrow> bytes"
  decodeClientTransaction :: "bytes \<Rightarrow> ClientTransaction option"
  decodeIdentity :: "bytes \<Rightarrow> Identity option"
  encodeInstruction :: "Instruction \<Rightarrow> bytes option"
  encodeDeferredData :: "deferredData \<Rightarrow> bytes option"
  decodeDeferredData :: "bytes \<Rightarrow> deferredData option"
  BasicVerifyInstruction :: "ReadOnlyStateTrie \<Rightarrow> Instruction \<Rightarrow> bytes \<Rightarrow> error option"
  identity_Equal :: "Identity \<Rightarrow> Identity \<Rightarrow> bool"
  identity_Verify :: "Identity \<Rightarrow> bytes \<Rightarrow> bytes \<Rightarrow> error option"
  registry :: ContractRegistry

definition contractDeferredFromBytes :: "Service \<Rightarrow> bytes \<Rightarrow> error + deferredData" where
  "contractDeferredFromBytes s buf =
     (case decodeDeferredData s buf of
        None \<Rightarrow> Inl CouldntUnmarshalInstanceData
      | Some d \<Rightarrow> Inr d)"

subsection \<open>Spawn\<close>

text \<open>
  Steps 1 and 2 of \<^verbatim>\<open>Spawn\<close>: the arguments are read and parsed, the hash of each proposed
  instruction is computed, and the data to save is built (\<^verbatim>\<open>ExecResult\<close> is left nil).
\<close>

definition spawnData :: "Service \<Rightarrow> Instruction \<Rightarrow> Arguments \<Rightarrow> error + deferredData" where
  "spawnData s inst args =
     (case decodeClientTransaction s (orNil (Search args ''proposedTransaction'')) of
        None \<Rightarrow> Inl CouldntDecodeProposedTransaction
      | Some proposedTransaction \<Rightarrow>
        (case ParseUint (orNil (Search args ''expireBlockIndex'')) of
           None \<Rightarrow> Inl CouldntConvertExpireBlockIndex
         | Some expireBlockIndex \<Rightarrow>
           (let numExecutionBuff = orNil (Search args ''NumExecution'') in
            case (if length numExecutionBuff > 0 then ParseUint numExecutionBuff
                  else Some defaultNumExecution) of
              None \<Rightarrow> Inl CouldntParseNumExecution
            | Some numExecution \<Rightarrow>
              (let hash = map (\<lambda>proposedInstruction.
                                 hashDeferred (sha256 s) proposedInstruction (InstanceID inst))
                              (Instructions proposedTransaction)
               in Inr \<lparr>ProposedTransaction = proposedTransaction,
                       ExpireBlockIndex = expireBlockIndex,
                       InstructionHashes = hash,
                       NumExecution = numExecution,
                       ExecResult = []\<rparr>))))"

definition contractDeferred_Spawn ::
  "Service \<Rightarrow> ReadOnlyStateTrie \<Rightarrow> Instruction \<Rightarrow> Coin list \<Rightarrow> result outcome" where
  "contractDeferred_Spawn s rst inst coins =
     (case GetValues rst (InstanceID inst) of
        Inl err \<Rightarrow> Returns ([], coins, Some err)
      | Inr (_, _, _, darcID) \<Rightarrow>
        (case body inst of
           Spawn _ args \<Rightarrow>
             (case spawnData s inst args of
                Inl err \<Rightarrow> Returns ([], [], Some err)
              | Inr data \<Rightarrow>
                (case encodeDeferredData s data of
                   None \<Rightarrow> Returns ([], [], Some CouldntEncodeDeferredDataSpawn)
                 | Some dataBuf \<Rightarrow>
                     Returns ([NewStateChange Create (DeriveID s inst '''') ContractDeferredID dataBuf darcID],
                              coins, None)))
         | Invoke _ _ _ \<Rightarrow> Panics NilPointerPanic
         | Delete _ \<Rightarrow> Panics NilPointerPanic))"

subsection \<open>Invoke\<close>

text \<open>
  The receiver is a pointer: \<^verbatim>\<open>Invoke\<close> changes \<^verbatim>\<open>c.deferredData\<close> in place before it
  encodes it. The model returns the receiver's data after the call with the result.
\<close>

type_synonym invoked = "(deferredData \<times> result) outcome"

definition addSignature :: "deferredData \<Rightarrow> nat \<Rightarrow> Identity \<Rightarrow> bytes \<Rightarrow> deferredData" where
  "addSignature c index identity signature =
     (let instrs = Instructions (ProposedTransaction c);
          instr = instrs ! index;
          instr = instr\<lparr>SignerIdentities := SignerIdentities instr @ [identity]\<rparr>;
          instr = instr\<lparr>Signatures := Signatures instr @ [signature]\<rparr>
      in c\<lparr>ProposedTransaction := (ProposedTransaction c)\<lparr>Instructions := instrs[index := instr]\<rparr>\<rparr>)"

definition addProof ::
  "Service \<Rightarrow> Instruction \<Rightarrow> Coin list \<Rightarrow> bytes \<Rightarrow> Arguments \<Rightarrow> deferredData \<Rightarrow> invoked" where
  "addProof s inst coins darcID args c =
     (case Search args ''index'' of
        None \<Rightarrow> Returns (c, [], [], Some IndexArgsNil)
      | Some indexBuf \<Rightarrow>
        if length indexBuf < 4 then Panics IndexOutOfRangePanic
        else
          (let index = Uint32 indexBuf;
               numInstruction = length (Instructions (ProposedTransaction c))
           in if index \<ge> of_nat numInstruction
              then Returns (c, [], [], Some (IndexOutOfRange index numInstruction))
              else
                (case Search args ''identity'' of
                   None \<Rightarrow> Returns (c, [], [], Some IdentityArgsNil)
                 | Some identityBuf \<Rightarrow>
                   (case decodeIdentity s identityBuf of
                      None \<Rightarrow> Returns (c, [], [], Some CouldntDecodeIdentity)
                    | Some identity \<Rightarrow>
                      (case Search args ''signature'' of
                         None \<Rightarrow> Returns (c, [], [], Some SignatureArgsNil)
                       | Some signature \<Rightarrow>
                         if numInstruction \<le> unat index then Panics IndexOutOfRangePanic
                         else
                           (let c = addSignature c (unat index) identity signature
                            in case encodeDeferredData s c of
                                 None \<Rightarrow> Returns (c, [], [], Some CouldntEncodeDeferredData)
                               | Some cosiDataBuf \<Rightarrow>
                                   Returns (c, [NewStateChange Update (InstanceID inst) ContractDeferredID
                                                  cosiDataBuf darcID],
                                            coins, None)))))))"

text \<open>The body of the loop of \<^verbatim>\<open>execProposedTx\<close> after the instruction's identifier is noted.\<close>

definition proposedContractID :: "Instruction \<Rightarrow> string" where
  "proposedContractID proposedInstr =
     (case GetType proposedInstr of
        SpawnType \<Rightarrow> spawn_ContractID (body proposedInstr)
      | InvokeType \<Rightarrow> invoke_ContractID (body proposedInstr)
      | DeleteType \<Rightarrow> delete_ContractID (body proposedInstr))"

text \<open>
  The second switch of the loop: the target contract is called with the coin slice of
  the deferred contract itself, and may leave other coins in it.
\<close>

definition dispatch :: "Contract \<Rightarrow> ReadOnlyStateTrie \<Rightarrow> Instruction \<Rightarrow> Coin list \<Rightarrow> called" where
  "dispatch contract rst proposedInstr coins =
     (case (case GetType proposedInstr of
              SpawnType \<Rightarrow> contract_Spawn contract rst proposedInstr coins
            | InvokeType \<Rightarrow> contract_Invoke contract rst proposedInstr coins
            | DeleteType \<Rightarrow> contract_Delete contract rst proposedInstr coins) of
        (written, stateChanges, cout, err) \<Rightarrow> (leftInSlice coins written, stateChanges, cout, err))"

text \<open>
  For the statements below: the method of the target contract that the kind of the
  instruction names, read off the instruction itself.
\<close>

definition targetCall :: "Contract \<Rightarrow> ReadOnlyStateTrie \<Rightarrow> Instruction \<Rightarrow> Coin list \<Rightarrow> called" where
  "targetCall contract rst instr coins =
     (case body instr of
        Spawn _ _ \<Rightarrow> contract_Spawn contract rst instr coins
      | Invoke _ _ _ \<Rightarrow> contract_Invoke contract rst instr coins
      | Delete _ \<Rightarrow> contract_Delete contract rst instr coins)"

definition execInstruction ::
  "Service \<Rightarrow> ReadOnlyStateTrie \<Rightarrow> Coin list \<Rightarrow> bytes list \<Rightarrow> nat \<Rightarrow> Instruction
     \<Rightarrow> (error + Coin list \<times> StateChange list) outcome" where
  "execInstruction s rst coins hashes i proposedInstr =
     (case GetContractConstructor (registry s) (proposedContractID proposedInstr) of
        None \<Rightarrow> Returns (Inl CouldntGetRootFunction)
      | Some fn \<Rightarrow>
        (case encodeInstruction s proposedInstr of
           None \<Rightarrow> Returns (Inl CouldntEncodeRootInstruction)
         | Some rootInstructionBuff \<Rightarrow>
           (case fn rootInstructionBuff of
              Inl _ \<Rightarrow> Returns (Inl CouldntGetRootContract)
            | Inr contract \<Rightarrow>
              if length hashes \<le> i then Panics IndexOutOfRangePanic
              else
                (case VerifyDeferredInstruction contract rst proposedInstr (hashes ! i) of
                   Some err \<Rightarrow> Returns (Inl (VerifyingInstructionFailed err))
                 | None \<Rightarrow>
                   (case dispatch contract rst proposedInstr coins of
                      (coins, stateChanges, _, Some err) \<Rightarrow> Returns (Inl (ErrorWhileExecuting err))
                    | (coins, stateChanges, _, None) \<Rightarrow> Returns (Inr (coins, stateChanges)))))))"

text \<open>
  The loop: the identifiers and the state changes are accumulated, and every target
  contract is handed the coin slice as the calls before it left it.
\<close>

fun execLoop ::
  "Service \<Rightarrow> ReadOnlyStateTrie \<Rightarrow> Coin list \<Rightarrow> bytes list \<Rightarrow> nat \<Rightarrow> Instruction list
     \<Rightarrow> bytes list \<Rightarrow> StateChange list
     \<Rightarrow> (error + bytes list \<times> StateChange list \<times> Coin list) outcome" where
  "execLoop s rst coins hashes i [] instructionIDs sc = Returns (Inr (instructionIDs, sc, coins))"
| "execLoop s rst coins hashes i (proposedInstr # rest) instructionIDs sc =
     (let instructionIDs = instructionIDs @ [DeriveID s proposedInstr '''']
      in case execInstruction s rst coins hashes i proposedInstr of
           Panics p \<Rightarrow> Panics p
         | Returns (Inl err) \<Rightarrow> Returns (Inl err)
         | Returns (Inr (coins, stateChanges)) \<Rightarrow>
             execLoop s rst coins hashes (Suc i) rest instructionIDs (sc @ stateChanges))"

text \<open>
  The coins the loop leaves in the slice before it comes to the proposed instruction
  \<open>k\<close> (the coins it was passed, where the loop does not get that far).
\<close>

definition coinsBefore ::
  "Service \<Rightarrow> ReadOnlyStateTrie \<Rightarrow> Coin list \<Rightarrow> bytes list \<Rightarrow> Instruction list \<Rightarrow> nat \<Rightarrow> Coin list" where
  "coinsBefore s rst coins hashes instrs k =
     (case execLoop s rst coins hashes 0 (take k instrs) [] [] of
        Returns (Inr (_, _, left)) \<Rightarrow> left
      | Returns (Inl _) \<Rightarrow> coins
      | Panics _ \<Rightarrow> coins)"

definition execProposedTx ::
  "Service \<Rightarrow> ReadOnlyStateTrie \<Rightarrow> Instruction \<Rightarrow> Coin list \<Rightarrow> bytes \<Rightarrow> deferredData \<Rightarrow> invoked" where
  "execProposedTx s rst inst coins darcID c =
     (case execLoop s rst coins (InstructionHashes c) 0 (Instructions (ProposedTransaction c)) [] [] of
        Panics p \<Rightarrow> Panics p
      | Returns (Inl err) \<Rightarrow> Returns (c, [], [], Some err)
      | Returns (Inr (instructionIDs, sc, coins)) \<Rightarrow>
        (let c = c\<lparr>ExecResult := instructionIDs\<rparr>;
             c = c\<lparr>NumExecution := NumExecution c - 1\<rparr>
         in case encodeDeferredData s c of
              None \<Rightarrow> Returns (c, [], [], Some CouldntEncodeResult)
            | Some resultBuf \<Rightarrow>
                Returns (c, sc @ [NewStateChange Update (InstanceID inst) ContractDeferredID resultBuf darcID],
                         coins, None)))"

definition contractDeferred_Invoke ::
  "Service \<Rightarrow> ReadOnlyStateTrie \<Rightarrow> Instruction \<Rightarrow> Coin list \<Rightarrow> deferredData \<Rightarrow> invoked" where
  "contractDeferred_Invoke s rst inst coins c =
     (case GetValues rst (InstanceID inst) of
        Inl err \<Rightarrow> Returns (c, [], coins, Some err)
      | Inr (_, _, _, darcID) \<Rightarrow>
        (case body inst of
           Invoke _ command args \<Rightarrow>
             if command = ''addProof'' then addProof s inst coins darcID args c
             else if command = ''execProposedTx'' then execProposedTx s rst inst coins darcID c
             else Returns (c, [], [], Some OnlyAddProofAndExec)
         | Spawn _ _ \<Rightarrow> Panics NilPointerPanic
         | Delete _ \<Rightarrow> Panics NilPointerPanic))"

subsection \<open>Delete\<close>

definition contractDeferred_Delete :: "ReadOnlyStateTrie \<Rightarrow> Instruction \<Rightarrow> Coin list \<Rightarrow> result outcome" where
  "contractDeferred_Delete rst inst coins =
     (case GetValues rst (InstanceID inst) of
        Inl err \<Rightarrow> Returns ([], coins, Some err)
      | Inr (_, _, _, darcID) \<Rightarrow>
          Returns ([NewStateChange Remove (InstanceID inst) ContractDeferredID [] darcID], coins, None))"

subsection \<open>VerifyInstruction\<close>

text \<open>The loop over the stored signer identities of the targeted instruction.\<close>

fun identityStored :: "(Identity \<Rightarrow> Identity \<Rightarrow> bool) \<Rightarrow> Identity \<Rightarrow> Identity list \<Rightarrow> bool" where
  "identityStored eq identity [] = False"
| "identityStored eq identity (storedIdentity # rest) =
     (if eq identity storedIdentity then True else identityStored eq identity rest)"

definition verifyAddProof :: "Service \<Rightarrow> Arguments \<Rightarrow> deferredData \<Rightarrow> error option outcome" where
  "verifyAddProof s args c =
     (case Search args ''identity'' of
        None \<Rightarrow> Returns (Some IdentityArgsNil)
      | Some identityBuf \<Rightarrow>
        (case decodeIdentity s identityBuf of
           None \<Rightarrow> Returns (Some CouldntDecodeIdentity)
         | Some identity \<Rightarrow>
           (case Search args ''index'' of
              None \<Rightarrow> Returns (Some IndexArgsNil)
            | Some indexBuf \<Rightarrow>
              if length indexBuf < 4 then Panics IndexOutOfRangePanic
              else
                (let index = unat (Uint32 indexBuf)
                 in if length (Instructions (ProposedTransaction c)) \<le> index
                    then Panics IndexOutOfRangePanic
                    else if identityStored (identity_Equal s) identity
                              (SignerIdentities (Instructions (ProposedTransaction c) ! index))
                    then Returns (Some IdentityAlreadyStored)
                    else
                      (case Search args ''signature'' of
                         None \<Rightarrow> Returns (Some SignatureArgsNil)
                       | Some signature \<Rightarrow>
                         if length (InstructionHashes c) \<le> index then Panics IndexOutOfRangePanic
                         else
                           (case identity_Verify s identity (InstructionHashes c ! index) signature of
                              Some _ \<Rightarrow> Returns (Some BadSignature)
                            | None \<Rightarrow> Returns None))))))"

text \<open>The two global checks on an Invoke: the execution counter, then the block index.\<close>

definition invokeGate :: "ReadOnlyStateTrie \<Rightarrow> deferredData \<Rightarrow> error option" where
  "invokeGate rst c =
     (if NumExecution c < 1 then Some MaxExecutionsReached
      else
        (let expireBlockIndex = ExpireBlockIndex c;
             currentIndex = (word_of_int (GetIndex rst) :: 64 word)
         in if currentIndex > expireBlockIndex
            then Some (BlockIndexTooHigh currentIndex expireBlockIndex)
            else None))"

definition contractDeferred_VerifyInstruction ::
  "Service \<Rightarrow> ReadOnlyStateTrie \<Rightarrow> Instruction \<Rightarrow> bytes \<Rightarrow> deferredData \<Rightarrow> error option outcome" where
  "contractDeferred_VerifyInstruction s rst instr ctxHash c =
     (case BasicVerifyInstruction s rst instr ctxHash of
        Some err \<Rightarrow> Returns (Some err)
      | None \<Rightarrow>
        (case body instr of
           Invoke _ command args \<Rightarrow>
             (case invokeGate rst c of
                Some err \<Rightarrow> Returns (Some err)
              | None \<Rightarrow>
                  if command = ''addProof'' then verifyAddProof s args c else Returns None)
         | Spawn _ _ \<Rightarrow> Returns None
         | Delete _ \<Rightarrow> Returns None))"

subsection \<open>Verified operations on one instance\<close>

text \<open>
  Modelled from the spec: the ledger layer that applies an instruction is not part of the
  sources. VerifyInstruction is the guard evaluated before every Invoke (section 4.6); an
  instruction either fully applies or fully fails (sections 5 and 7), so the stored
  DeferredData is replaced by the data that the contract's own Update encodes when guard
  and body both return without error, and is left as it was otherwise. The next contract
  is rehydrated from what is stored.
\<close>

definition verifiedInvoke ::
  "Service \<Rightarrow> ReadOnlyStateTrie \<Rightarrow> Instruction \<Rightarrow> bytes \<Rightarrow> Coin list \<Rightarrow> deferredData \<Rightarrow> invoked" where
  "verifiedInvoke s rst inst ctxHash coins c =
     (case contractDeferred_VerifyInstruction s rst inst ctxHash c of
        Panics p \<Rightarrow> Panics p
      | Returns (Some err) \<Rightarrow> Returns (c, [], [], Some err)
      | Returns None \<Rightarrow> contractDeferred_Invoke s rst inst coins c)"

definition stored :: "deferredData \<Rightarrow> invoked \<Rightarrow> deferredData" where
  "stored c r =
     (case r of
        Returns (c', _, _, None) \<Rightarrow> c'
      | Returns (_, _, _, Some _) \<Rightarrow> c
      | Panics _ \<Rightarrow> c)"

type_synonym request = "ReadOnlyStateTrie \<times> Instruction \<times> bytes \<times> Coin list"

fun run :: "Service \<Rightarrow> deferredData \<Rightarrow> request list \<Rightarrow> deferredData" where
  "run s c [] = c"
| "run s c ((rst, inst, ctxHash, coins) # rest) =
     run s (stored c (verifiedInvoke s rst inst ctxHash coins c)) rest"

subsection \<open>A small ledger to run the definitions on\<close>

text \<open>
  Stand-ins for the collaborators: the digest keeps the byte string as it is, a derived
  identifier is the instruction's instance identifier behind the byte 255, the decoders
  know one proposed transaction and one identity, a signature is valid when it repeats
  the hash. The registry holds two contracts: \<open>coin\<close> accepts every deferred instruction,
  answers an Invoke with one Update, leaves the coin slice alone and hands back no
  coins; \<open>pay\<close> answers a Spawn with two state changes and, like \<^verbatim>\<open>ContractWrite.Spawn\<close>,
  takes its price of 1 off the first coin in the slice it was handed.
\<close>

definition coinTransfer :: Instruction where
  "coinTransfer =
     \<lparr>InstanceID = [7], body = Invoke ''coin'' ''transfer'' [\<lparr>Name = ''coins'', Value = [5]\<rparr>],
      SignerCounter = [], SignerIdentities = [], Signatures = []\<rparr>"

definition unknownSpawn :: Instruction where
  "unknownSpawn =
     \<lparr>InstanceID = [8], body = Spawn ''unknown'' [],
      SignerCounter = [], SignerIdentities = [], Signatures = []\<rparr>"

definition paySpawn :: Instruction where
  "paySpawn =
     \<lparr>InstanceID = [6], body = Spawn ''pay'' [],
      SignerCounter = [], SignerIdentities = [], Signatures = []\<rparr>"

definition coinContract :: Contract where
  "coinContract =
     \<lparr>VerifyDeferredInstruction = (\<lambda>rst p h. None),
      contract_Spawn = (\<lambda>rst p coins. (coins, [], coins, Some (ExternalError ''coin: spawn''))),
      contract_Invoke =
        (\<lambda>rst p coins. (coins, [NewStateChange Update (InstanceID p) ''coin'' [1] [9]], [], None)),
      contract_Delete = (\<lambda>rst p coins. (coins, [], coins, Some (ExternalError ''coin: delete'')))\<rparr>"

definition payPrice :: "Coin list \<Rightarrow> Coin list" where
  "payPrice coins =
     (case coins of [] \<Rightarrow> [] | coin # rest \<Rightarrow> coin\<lparr>coin_Value := coin_Value coin - 1\<rparr> # rest)"

definition payContract :: Contract where
  "payContract =
     \<lparr>VerifyDeferredInstruction = (\<lambda>rst p h. None),
      contract_Spawn =
        (\<lambda>rst p coins. (payPrice coins,
                         [NewStateChange Create (255 # InstanceID p) ''pay'' [2] [9],
                          NewStateChange Update (InstanceID p) ''pay'' [3] [9]],
                         payPrice coins, None)),
      contract_Invoke = (\<lambda>rst p coins. (coins, [], coins, Some (ExternalError ''pay: invoke''))),
      contract_Delete = (\<lambda>rst p coins. (coins, [], coins, Some (ExternalError ''pay: delete'')))\<rparr>"

definition testService :: Service where
  "testService =
     \<lparr>sha256 = (\<lambda>b. b),
      DeriveID = (\<lambda>i what. 255 # InstanceID i),
      decodeClientTransaction = (\<lambda>b. if b = [1] then Some \<lparr>Instructions = [coinTransfer]\<rparr> else None),
      decodeIdentity = (\<lambda>b. if b = [65] then Some ''A'' else None),
      encodeInstruction = (\<lambda>i. Some (InstanceID i)),
      encodeDeferredData = (\<lambda>d. Some [ucast (NumExecution d)]),
      decodeDeferredData = (\<lambda>b. None),
      BasicVerifyInstruction = (\<lambda>rst i h. None),
      identity_Equal = (\<lambda>a b. a = b),
      identity_Verify = (\<lambda>i h sig. if sig = h then None else Some (ExternalError ''invalid signature'')),
      registry = RegisterContract (RegisterContract NewContractRegistry ''coin'' (\<lambda>buf. Inr coinContract))
                   ''pay'' (\<lambda>buf. Inr payContract)\<rparr>"

text \<open>The same service with the contract \<open>coin\<close> alone in its registry.\<close>

definition coinService :: Service where
  "coinService =
     testService\<lparr>registry := RegisterContract NewContractRegistry ''coin'' (\<lambda>buf. Inr coinContract)\<rparr>"

definition testTrie :: "int \<Rightarrow> ReadOnlyStateTrie" where
  "testTrie index = \<lparr>GetValues = (\<lambda>k. Inr ([], 0, ''deferred'', [9])), GetIndex = index\<rparr>"

definition testData :: "64 word \<Rightarrow> 64 word \<Rightarrow> Instruction list \<Rightarrow> deferredData" where
  "testData numExecution expireBlockIndex instrs =
     \<lparr>ProposedTransaction = \<lparr>Instructions = instrs\<rparr>,
      ExpireBlockIndex = expireBlockIndex,
      InstructionHashes = map (\<lambda>p. hashDeferred (\<lambda>b. b) p [3]) instrs,
      NumExecution = numExecution,
      ExecResult = []\<rparr>"

definition spawnInst :: Instruction where
  "spawnInst =
     \<lparr>InstanceID = [3],
      body = Spawn ''deferred''
               [\<lparr>Name = ''proposedTransaction'', Value = [1]\<rparr>,
                \<lparr>Name = ''expireBlockIndex'', Value = [49, 48, 48]\<rparr>,
                \<lparr>Name = ''NumExecution'', Value = [49]\<rparr>],
      SignerCounter = [], SignerIdentities = [], Signatures = []\<rparr>"

definition execInst :: Instruction where
  "execInst =
     \<lparr>InstanceID = [255, 3], body = Invoke ''deferred'' ''execProposedTx'' [],
      SignerCounter = [], SignerIdentities = [], Signatures = []\<rparr>"

definition addProofInst :: "bytes \<Rightarrow> bytes \<Rightarrow> bytes \<Rightarrow> Instruction" where
  "addProofInst index identity signature =
     \<lparr>InstanceID = [255, 3],
      body = Invoke ''deferred'' ''addProof''
               [\<lparr>Name = ''identity'', Value = identity\<rparr>,
                \<lparr>Name = ''signature'', Value = signature\<rparr>,
                \<lparr>Name = ''index'', Value = index\<rparr>],
      SignerCounter = [], SignerIdentities = [], Signatures = []\<rparr>"

section \<open>Properties\<close>

subsection \<open>The canonical hash\<close>

lemma length_PutUint64: "length (PutUint64 v) = 8"
  by (simp add: PutUint64_def)

text \<open>The code's bytes of a string are the character codes.\<close>

lemma bytesOf_stringBytes: "bytesOf str = stringBytes str"
  by (simp add: bytesOf_def stringBytes_def of_nat_of_char)

lemma length_bytesOf: "length (bytesOf str) = length str"
  by (simp add: bytesOf_def)

text \<open>
  The code's length field, \<^verbatim>\<open>PutUint64\<close> of the length as a \<^verbatim>\<open>uint64\<close>, holds the eight
  digits to the base 256, the least significant first.
\<close>

lemma PutUint64_byte:
  assumes "k < 8"
  shows "(ucast (drop_bit (8 * k) (of_nat n :: 64 word)) :: byte) = of_nat (n div 256 ^ k mod 256)"
proof -
  have p: "(256 :: nat) ^ k = 2 ^ (8 * k)"
    by (simp add: power_mult)
  have d: "n div 256 ^ k mod 256 = take_bit 8 (drop_bit (8 * k) n)"
    by (simp add: p take_bit_eq_mod drop_bit_eq_div)
  show ?thesis
    unfolding d using assms
    by (intro bit_word_eqI) (auto simp: bit_simps)
qed

lemma PutUint64_lengthField: "PutUint64 (of_nat n) = lengthField n"
  unfolding PutUint64_def lengthField_def
  by (rule map_cong[OF refl]) (simp add: PutUint64_byte)

lemma writeArgs_feed:
  "writeArgs h as = h @ concat (map argumentFeed as)"
  by (induction as arbitrary: h)
    (simp_all add: argumentFeed_def Let_def PutUint64_lengthField bytesOf_stringBytes[symmetric]
      length_bytesOf)

text \<open>
  C5. The canonical deferred hash is a function of one instruction and a binding
  identifier, equal to the reference definition: the digest of the instruction's own
  instance identifier, a one-byte kind tag (0 for Spawn, 1 for Invoke, 2 for Delete), the
  target contract identifier, for each argument in stored order the name's length and
  bytes and the value's length and bytes, and the binding identifier. A length is a
  field of fixed width: 8 bytes, the number to the base 256 with the least significant
  digit first. The signer identities, signatures and signer counters contribute
  nothing. With the digest that keeps its input, the feeds of an Invoke with one
  argument, of a Spawn and of a Delete are the byte strings written out below, and the
  length 258 is fed as 2, 1 and six zeros.
\<close>

theorem hashDeferred_canonical:
  "hashDeferred sha instr binding = canonicalHash_spec sha instr binding
   \<and> kindTag (Spawn c as) = 0 \<and> kindTag (Invoke c cmd as) = 1 \<and> kindTag (Delete c) = 2
   \<and> length (lengthField n) = 8
   \<and> hashDeferred sha (instr\<lparr>SignerIdentities := ids, Signatures := sigs, SignerCounter := ctrs\<rparr>) binding
       = hashDeferred sha instr binding
   \<and> hashDeferred (\<lambda>b. b)
        \<lparr>InstanceID = [7], body = Invoke ''coin'' ''transfer'' [\<lparr>Name = ''coins'', Value = [5, 6]\<rparr>],
         SignerCounter = [1], SignerIdentities = [''A''], Signatures = [[4]]\<rparr> [3]
       = [7, 1, 99, 111, 105, 110,
          5, 0, 0, 0, 0, 0, 0, 0, 99, 111, 105, 110, 115,
          2, 0, 0, 0, 0, 0, 0, 0, 5, 6, 3]
   \<and> hashDeferred (\<lambda>b. b)
        \<lparr>InstanceID = [8], body = Spawn ''pay'' [\<lparr>Name = ''a'', Value = []\<rparr>, \<lparr>Name = '''', Value = [9]\<rparr>],
         SignerCounter = [], SignerIdentities = [], Signatures = []\<rparr> [3, 4]
       = [8, 0, 112, 97, 121,
          1, 0, 0, 0, 0, 0, 0, 0, 97, 0, 0, 0, 0, 0, 0, 0, 0,
          0, 0, 0, 0, 0, 0, 0, 0, 1, 0, 0, 0, 0, 0, 0, 0, 9, 3, 4]
   \<and> hashDeferred (\<lambda>b. b)
        \<lparr>InstanceID = [9], body = Delete ''coin'',
         SignerCounter = [], SignerIdentities = [], Signatures = []\<rparr> []
       = [9, 2, 99, 111, 105, 110]
   \<and> PutUint64 (of_nat 258) = [2, 1, 0, 0, 0, 0, 0, 0]
   \<and> lengthField 258 = [2, 1, 0, 0, 0, 0, 0, 0]"
proof -
  have eq: "hashDeferred sha i b = canonicalHash_spec sha i b" for i b
    by (cases "body i")
      (simp_all add: hashDeferred_def canonicalHash_spec_def canonicalFeed_def GetType_def
        kindTag_def targetContractID_def storedArgs_def writeArgs_feed bytesOf_stringBytes)
  have frame: "canonicalFeed (instr\<lparr>SignerIdentities := ids, Signatures := sigs, SignerCounter := ctrs\<rparr>) binding
      = canonicalFeed instr binding"
    by (simp add: canonicalFeed_def)
  have l5: "PutUint64 5 = [5, 0, 0, 0, 0, 0, 0, 0]"
    and l2: "PutUint64 2 = [2, 0, 0, 0, 0, 0, 0, 0]"
    and l1: "PutUint64 1 = [1, 0, 0, 0, 0, 0, 0, 0]"
    and l0: "PutUint64 0 = [0, 0, 0, 0, 0, 0, 0, 0]"
    and l258: "PutUint64 258 = [2, 1, 0, 0, 0, 0, 0, 0]"
    by (simp_all add: PutUint64_def upt_rec drop_bit_eq_div)
  have v1: "hashDeferred (\<lambda>b. b)
        \<lparr>InstanceID = [7], body = Invoke ''coin'' ''transfer'' [\<lparr>Name = ''coins'', Value = [5, 6]\<rparr>],
         SignerCounter = [1], SignerIdentities = [''A''], Signatures = [[4]]\<rparr> [3]
       = [7, 1, 99, 111, 105, 110,
          5, 0, 0, 0, 0, 0, 0, 0, 99, 111, 105, 110, 115,
          2, 0, 0, 0, 0, 0, 0, 0, 5, 6, 3]"
    by (simp add: hashDeferred_def GetType_def bytesOf_def l5 l2)
  have v2: "hashDeferred (\<lambda>b. b)
        \<lparr>InstanceID = [8], body = Spawn ''pay'' [\<lparr>Name = ''a'', Value = []\<rparr>, \<lparr>Name = '''', Value = [9]\<rparr>],
         SignerCounter = [], SignerIdentities = [], Signatures = []\<rparr> [3, 4]
       = [8, 0, 112, 97, 121,
          1, 0, 0, 0, 0, 0, 0, 0, 97, 0, 0, 0, 0, 0, 0, 0, 0,
          0, 0, 0, 0, 0, 0, 0, 0, 1, 0, 0, 0, 0, 0, 0, 0, 9, 3, 4]"
    by (simp add: hashDeferred_def GetType_def bytesOf_def l1 l0)
  have v3: "hashDeferred (\<lambda>b. b)
        \<lparr>InstanceID = [9], body = Delete ''coin'',
         SignerCounter = [], SignerIdentities = [], Signatures = []\<rparr> []
       = [9, 2, 99, 111, 105, 110]"
    by (simp add: hashDeferred_def GetType_def bytesOf_def)
  have f258: "lengthField 258 = [2, 1, 0, 0, 0, 0, 0, 0]"
    by (simp add: lengthField_def upt_rec)
  have p258: "PutUint64 (of_nat 258) = [2, 1, 0, 0, 0, 0, 0, 0]"
    using l258 by simp
  have len: "length (lengthField n) = 8"
    by (simp add: lengthField_def)
  have tags: "kindTag (Spawn c as) = 0 \<and> kindTag (Invoke c cmd as) = 1 \<and> kindTag (Delete c) = 2"
    by (simp add: kindTag_def)
  have inv: "hashDeferred sha (instr\<lparr>SignerIdentities := ids, Signatures := sigs, SignerCounter := ctrs\<rparr>) binding
       = hashDeferred sha instr binding"
    by (simp add: eq canonicalHash_spec_def frame)
  from eq[of instr binding] tags len inv v1 v2 v3 p258 f258 show ?thesis
    by blast
qed

subsection \<open>The loop over the proposed instructions\<close>

lemma length_leftInSlice: "length (leftInSlice coins written) = length coins"
  by (simp add: leftInSlice_def)

lemma leftInSlice_same_length: "length written = length coins \<Longrightarrow> leftInSlice coins written = written"
  by (simp add: leftInSlice_def)

lemma dispatch_targetCall:
  "dispatch contract rst p coins =
     (case targetCall contract rst p coins of
        (written, stateChanges, cout, err) \<Rightarrow> (leftInSlice coins written, stateChanges, cout, err))"
  by (cases "body p") (simp_all add: dispatch_def targetCall_def GetType_def)

lemma proposedContractID_target: "proposedContractID p = targetContractID (body p)"
  by (cases "body p") (simp_all add: proposedContractID_def targetContractID_def GetType_def)

lemma Invoke_error_no_effects:
  "contractDeferred_Invoke s rst inst coins c = Returns (c', sc, cout, Some e) \<Longrightarrow> sc = []"
  by (auto simp: contractDeferred_Invoke_def addProof_def execProposedTx_def Let_def
      split: sum.splits prod.splits Body.splits option.splits if_splits outcome.splits)

lemma execInstruction_no_panic:
  "i < length hashes \<Longrightarrow> execInstruction s rst coins hashes i p \<noteq> Panics pn"
  by (auto simp: execInstruction_def split: option.splits sum.splits prod.splits)

text \<open>When one pass of the loop body goes through, and what it yields.\<close>

lemma execInstruction_Inr:
  "execInstruction s rst coins hashes i p = Returns (Inr (left, stateChanges)) \<longleftrightarrow>
     (\<exists>fn buf contract written cout.
        GetContractConstructor (registry s) (targetContractID (body p)) = Some fn \<and>
        encodeInstruction s p = Some buf \<and>
        fn buf = Inr contract \<and>
        i < length hashes \<and>
        VerifyDeferredInstruction contract rst p (hashes ! i) = None \<and>
        targetCall contract rst p coins = (written, stateChanges, cout, None) \<and>
        left = leftInSlice coins written)"
  unfolding execInstruction_def dispatch_targetCall proposedContractID_target
  by (auto split: option.splits sum.splits prod.splits)

lemma execLoop_fails:
  assumes "j < length ps"
      and "i + length ps \<le> length hashes"
      and "\<And>ids' sc' left.
             execLoop s rst coins hashes i (take j ps) ids sc = Returns (Inr (ids', sc', left)) \<Longrightarrow>
             \<exists>e. execInstruction s rst left hashes (i + j) (ps ! j) = Returns (Inl e)"
  shows "\<exists>e'. execLoop s rst coins hashes i ps ids sc = Returns (Inl e')"
  using assms
proof (induction ps arbitrary: i j ids sc coins)
  case Nil
  then show ?case by simp
next
  case (Cons p ps)
  have np: "execInstruction s rst coins hashes i p \<noteq> Panics pn" for pn
    using Cons.prems(2) by (intro execInstruction_no_panic) simp
  show ?case
  proof (cases "execInstruction s rst coins hashes i p")
    case (Panics pn)
    with np[of pn] show ?thesis by simp
  next
    case (Returns r)
    show ?thesis
    proof (cases r)
      case (Inl e0)
      with Returns show ?thesis by simp
    next
      case (Inr pr)
      obtain left1 scs where pr: "pr = (left1, scs)"
        by (cases pr)
      note step = Returns[unfolded Inr pr]
      show ?thesis
      proof (cases j)
        case 0
        have "\<exists>e. execInstruction s rst coins hashes (i + j) ((p # ps) ! j) = Returns (Inl e)"
          by (rule Cons.prems(3)[of ids sc coins]) (simp add: 0)
        with step 0 show ?thesis by simp
      next
        case (Suc j')
        have "\<exists>e'. execLoop s rst left1 hashes (Suc i) ps (ids @ [DeriveID s p '''']) (sc @ scs)
                = Returns (Inl e')"
        proof (rule Cons.IH[of j'])
          show "j' < length ps" using Cons.prems(1) Suc by simp
          show "Suc i + length ps \<le> length hashes" using Cons.prems(2) by simp
        next
          fix ids' sc' left
          assume a: "execLoop s rst left1 hashes (Suc i) (take j' ps) (ids @ [DeriveID s p '''']) (sc @ scs)
                       = Returns (Inr (ids', sc', left))"
          have "execLoop s rst coins hashes i (take j (p # ps)) ids sc = Returns (Inr (ids', sc', left))"
            using a step by (simp add: Suc)
          from Cons.prems(3)[OF this]
          show "\<exists>e. execInstruction s rst left hashes (Suc i + j') (ps ! j') = Returns (Inl e)"
            by (simp add: Suc)
        qed
        with step show ?thesis by simp
      qed
    qed
  qed
qed

text \<open>
  What a loop that ends without error has done: it noted the derived identifier of every
  proposed instruction, and pass \<open>j\<close> of its body found the coins \<open>slices ! j\<close> in the
  slice, left \<open>slices ! Suc j\<close> there and added the state changes \<open>parts ! j\<close>.
\<close>

lemma execLoop_succeeds:
  "execLoop s rst coins hashes i ps ids sc = Returns (Inr (ids', sc', left)) \<Longrightarrow>
     ids' = ids @ map (\<lambda>p. DeriveID s p '''') ps \<and>
     (\<exists>parts slices. length parts = length ps \<and> length slices = Suc (length ps) \<and>
        slices ! 0 = coins \<and> slices ! length ps = left \<and>
        (\<forall>j<length ps. execInstruction s rst (slices ! j) hashes (i + j) (ps ! j)
                          = Returns (Inr (slices ! Suc j, parts ! j))) \<and>
        sc' = sc @ concat parts)"
proof (induction ps arbitrary: i ids sc coins)
  case Nil
  then show ?case by (auto intro: exI[of _ "[coins]"])
next
  case (Cons p ps)
  from Cons.prems obtain left1 scs where
    step: "execInstruction s rst coins hashes i p = Returns (Inr (left1, scs))" and
    rest: "execLoop s rst left1 hashes (Suc i) ps (ids @ [DeriveID s p '''']) (sc @ scs)
             = Returns (Inr (ids', sc', left))"
    by (auto simp: Let_def split: outcome.splits sum.splits prod.splits)
  from Cons.IH[OF rest] obtain parts slices where
    ids: "ids' = (ids @ [DeriveID s p '''']) @ map (\<lambda>p. DeriveID s p '''') ps" and
    len: "length parts = length ps" and
    lens: "length slices = Suc (length ps)" and
    first: "slices ! 0 = left1" and
    last: "slices ! length ps = left" and
    each: "\<forall>j<length ps. execInstruction s rst (slices ! j) hashes (Suc i + j) (ps ! j)
                            = Returns (Inr (slices ! Suc j, parts ! j))" and
    sc: "sc' = (sc @ scs) @ concat parts"
    by blast
  have "\<forall>j<length (p # ps). execInstruction s rst ((coins # slices) ! j) hashes (i + j) ((p # ps) ! j)
          = Returns (Inr ((coins # slices) ! Suc j, (scs # parts) ! j))"
  proof (intro allI impI)
    fix j assume "j < length (p # ps)"
    then show "execInstruction s rst ((coins # slices) ! j) hashes (i + j) ((p # ps) ! j)
                 = Returns (Inr ((coins # slices) ! Suc j, (scs # parts) ! j))"
      using step each first by (cases j) auto
  qed
  then show ?case using ids len lens last sc
    by (intro conjI exI[of _ "scs # parts"] exI[of _ "coins # slices"]) auto
qed

lemma execInstruction_length:
  "execInstruction s rst coins hashes i p = Returns (Inr (left, stateChanges)) \<Longrightarrow>
     length left = length coins"
  by (auto simp: execInstruction_Inr length_leftInSlice)

lemma execLoop_length:
  "execLoop s rst coins hashes i ps ids sc = Returns (Inr (ids', sc', left)) \<Longrightarrow>
     length left = length coins"
proof (induction ps arbitrary: i ids sc coins)
  case Nil
  then show ?case by simp
next
  case (Cons p ps)
  from Cons.prems obtain left1 scs where
    step: "execInstruction s rst coins hashes i p = Returns (Inr (left1, scs))" and
    rest: "execLoop s rst left1 hashes (Suc i) ps (ids @ [DeriveID s p '''']) (sc @ scs)
             = Returns (Inr (ids', sc', left))"
    by (auto simp: Let_def split: outcome.splits sum.splits prod.splits)
  from Cons.IH[OF rest] execInstruction_length[OF step] show ?case by simp
qed

text \<open>Target contracts that leave the slice as they found it leave it so after the loop.\<close>

lemma execLoop_untouched:
  assumes quiet: "\<And>name fn buf contract p cs.
             GetContractConstructor (registry s) name = Some fn \<Longrightarrow> fn buf = Inr contract \<Longrightarrow>
             leftInSlice cs (fst (targetCall contract rst p cs)) = cs"
      and "execLoop s rst coins hashes i ps ids sc = Returns (Inr (ids', sc', left))"
  shows "left = coins"
  using assms(2)
proof (induction ps arbitrary: i ids sc)
  case Nil
  then show ?case by simp
next
  case (Cons p ps)
  from Cons.prems obtain left1 scs where
    step: "execInstruction s rst coins hashes i p = Returns (Inr (left1, scs))" and
    rest: "execLoop s rst left1 hashes (Suc i) ps (ids @ [DeriveID s p '''']) (sc @ scs)
             = Returns (Inr (ids', sc', left))"
    by (auto simp: Let_def split: outcome.splits sum.splits prod.splits)
  from step obtain fn buf contract written cout where
    "GetContractConstructor (registry s) (targetContractID (body p)) = Some fn"
    "fn buf = Inr contract"
    "targetCall contract rst p coins = (written, scs, cout, None)"
    "left1 = leftInSlice coins written"
    unfolding execInstruction_Inr by blast
  with quiet[of "targetContractID (body p)" fn buf contract coins p] have "left1 = coins"
    by simp
  with rest Cons.IH show ?case by simp
qed

lemma execInstruction_step_failure:
  assumes "k < length hashes"
      and "GetContractConstructor (registry s) (proposedContractID p) = None
           \<or> (\<exists>fn. GetContractConstructor (registry s) (proposedContractID p) = Some fn \<and>
                 (encodeInstruction s p = None
                  \<or> (\<exists>buf. encodeInstruction s p = Some buf \<and>
                        ((\<exists>err. fn buf = Inl err)
                         \<or> (\<exists>contract. fn buf = Inr contract \<and>
                               (VerifyDeferredInstruction contract rst p (hashes ! k) \<noteq> None
                                \<or> snd (snd (snd (dispatch contract rst p coins))) \<noteq> None))))))"
  shows "\<exists>e. execInstruction s rst coins hashes k p = Returns (Inl e)"
  using assms
  by (auto simp: execInstruction_def split: option.splits sum.splits prod.splits)

lemma coinsBefore_left:
  "execLoop s rst coins hashes 0 (take k instrs) [] [] = Returns (Inr (ids, sc, left)) \<Longrightarrow>
     coinsBefore s rst coins hashes instrs k = left"
  by (simp add: coinsBefore_def)

lemma execProposedTx_loop_failure:
  assumes "execLoop s rst coins (InstructionHashes c) 0 (Instructions (ProposedTransaction c)) [] [] = Returns (Inl e)"
      and "body inst = Invoke cid ''execProposedTx'' args"
  shows "\<exists>e' cout. contractDeferred_Invoke s rst inst coins c = Returns (c, [], cout, Some e')"
  using assms
  by (auto simp: contractDeferred_Invoke_def execProposedTx_def split: sum.splits prod.splits)

lemma execProposedTx_returns:
  assumes "body inst = Invoke cid ''execProposedTx'' args"
      and "contractDeferred_Invoke s rst inst coins c = Returns (c', sc, cout, None)"
  shows "\<exists>v ver cid' darcID ids nested resultBuf.
           GetValues rst (InstanceID inst) = Inr (v, ver, cid', darcID) \<and>
           execLoop s rst coins (InstructionHashes c) 0 (Instructions (ProposedTransaction c)) [] []
             = Returns (Inr (ids, nested, cout)) \<and>
           c' = c\<lparr>ExecResult := ids, NumExecution := NumExecution c - 1\<rparr> \<and>
           encodeDeferredData s c' = Some resultBuf \<and>
           sc = nested @ [NewStateChange Update (InstanceID inst) ContractDeferredID resultBuf darcID]"
  using assms
  by (auto simp: contractDeferred_Invoke_def execProposedTx_def Let_def
      split: sum.splits prod.splits option.splits outcome.splits)

subsection \<open>The definitions on the small ledger\<close>

lemma fixture_registry_coin:
  "GetContractConstructor (registry testService) ''coin'' = Some (\<lambda>buf. Inr coinContract)"
  by (simp add: testService_def GetContractConstructor_def RegisterContract_def NewContractRegistry_def)

lemma fixture_registry_pay:
  "GetContractConstructor (registry testService) ''pay'' = Some (\<lambda>buf. Inr payContract)"
  by (simp add: testService_def GetContractConstructor_def RegisterContract_def NewContractRegistry_def)

lemma fixture_registry_unknown:
  "GetContractConstructor (registry testService) ''unknown'' = None"
  by (simp add: testService_def GetContractConstructor_def RegisterContract_def NewContractRegistry_def)

lemma fixture_encodeInstruction: "encodeInstruction testService i = Some (InstanceID i)"
  by (simp add: testService_def)

lemma fixture_encodeDeferredData:
  "encodeDeferredData testService d = Some [ucast (NumExecution d)]"
  by (simp add: testService_def)

lemma fixture_DeriveID: "DeriveID testService i what = 255 # InstanceID i"
  by (simp add: testService_def)

lemma fixture_BasicVerify: "BasicVerifyInstruction testService rst i h = None"
  by (simp add: testService_def)

lemma fixture_GetValues: "GetValues (testTrie n) k = Inr ([], 0, ''deferred'', [9])"
  by (simp add: testTrie_def)

lemma fixture_payPrice:
  "payPrice [\<lparr>coin_Name = [1], coin_Value = 5\<rparr>] = [\<lparr>coin_Name = [1], coin_Value = 4\<rparr>]"
  by (simp add: payPrice_def)

lemma fixture_exec_coinTransfer:
  "i < length hashes \<Longrightarrow>
   execInstruction testService (testTrie n) coins hashes i coinTransfer
     = Returns (Inr (coins, [NewStateChange Update [7] ''coin'' [1] [9]]))"
  by (simp add: execInstruction_def proposedContractID_def GetType_def coinTransfer_def
      dispatch_def coinContract_def fixture_registry_coin fixture_encodeInstruction
      leftInSlice_def)

lemma fixture_exec_paySpawn:
  "i < length hashes \<Longrightarrow>
   execInstruction testService (testTrie n) [\<lparr>coin_Name = [1], coin_Value = 5\<rparr>] hashes i paySpawn
     = Returns (Inr ([\<lparr>coin_Name = [1], coin_Value = 4\<rparr>],
                     [NewStateChange Create [255, 6] ''pay'' [2] [9],
                      NewStateChange Update [6] ''pay'' [3] [9]]))"
  by (simp add: execInstruction_def proposedContractID_def GetType_def paySpawn_def
      dispatch_def payContract_def fixture_registry_pay fixture_encodeInstruction
      leftInSlice_def fixture_payPrice)

lemma fixture_instrs: "Instructions (ProposedTransaction (testData n e instrs)) = instrs"
  by (simp add: testData_def)

lemma fixture_hashes_length: "length (InstructionHashes (testData n e instrs)) = length instrs"
  by (simp add: testData_def)

lemma fixture_loop_coinTransfer:
  "execLoop testService (testTrie n) coins (InstructionHashes (testData 1 e [coinTransfer])) 0
     [coinTransfer] [] []
   = Returns (Inr ([[255, 7]], [NewStateChange Update [7] ''coin'' [1] [9]], coins))"
  by (simp add: fixture_hashes_length fixture_exec_coinTransfer fixture_DeriveID)
    (simp add: coinTransfer_def)

lemma fixture_exec_succeeds:
  "contractDeferred_Invoke testService (testTrie n) execInst coins (testData 1 e [coinTransfer])
     = Returns ((testData 1 e [coinTransfer])\<lparr>ExecResult := [[255, 7]], NumExecution := 0\<rparr>,
                [NewStateChange Update [7] ''coin'' [1] [9],
                 NewStateChange Update [255, 3] ''deferred'' [0] [9]],
                coins, None)"
  unfolding contractDeferred_Invoke_def execProposedTx_def fixture_instrs fixture_loop_coinTransfer
  by (simp add: fixture_GetValues execInst_def fixture_encodeDeferredData ContractDeferredID_def)
    (simp add: testData_def)

text \<open>
  Two proposed instructions: the Invoke of \<open>coin\<close> with one effect, then the Spawn of \<open>pay\<close>
  with two effects, which takes its price off the coin in the slice.
\<close>

lemma fixture_loop_pay:
  "execLoop testService (testTrie n) [\<lparr>coin_Name = [1], coin_Value = 5\<rparr>]
     (InstructionHashes (testData 1 e [coinTransfer, paySpawn])) 0 [coinTransfer, paySpawn] [] []
   = Returns (Inr ([[255, 7], [255, 6]],
                   [NewStateChange Update [7] ''coin'' [1] [9],
                    NewStateChange Create [255, 6] ''pay'' [2] [9],
                    NewStateChange Update [6] ''pay'' [3] [9]],
                   [\<lparr>coin_Name = [1], coin_Value = 4\<rparr>]))"
  by (simp add: fixture_hashes_length fixture_exec_coinTransfer fixture_exec_paySpawn fixture_DeriveID)
    (simp add: coinTransfer_def paySpawn_def)

lemma fixture_exec_pay:
  "contractDeferred_Invoke testService (testTrie n) execInst [\<lparr>coin_Name = [1], coin_Value = 5\<rparr>]
       (testData 1 e [coinTransfer, paySpawn])
     = Returns ((testData 1 e [coinTransfer, paySpawn])\<lparr>ExecResult := [[255, 7], [255, 6]], NumExecution := 0\<rparr>,
                [NewStateChange Update [7] ''coin'' [1] [9],
                 NewStateChange Create [255, 6] ''pay'' [2] [9],
                 NewStateChange Update [6] ''pay'' [3] [9],
                 NewStateChange Update [255, 3] ''deferred'' [0] [9]],
                [\<lparr>coin_Name = [1], coin_Value = 4\<rparr>], None)"
  unfolding contractDeferred_Invoke_def execProposedTx_def fixture_instrs fixture_loop_pay
  by (simp add: fixture_GetValues execInst_def fixture_encodeDeferredData ContractDeferredID_def)
    (simp add: testData_def)

text \<open>
  C1. For every deferred instance and every \<open>execProposedTx\<close> Invoke: if processing any
  proposed instruction fails at any step (the registry lookup of the target contract,
  the re-hydration of the contract, the deferred verification, or the dispatch to
  Spawn, Invoke or Delete, which is handed the coins that the instructions before it
  left in the slice), the whole invocation returns an error and no state change:
  neither the effects of earlier proposed instructions nor an Update of the deferred
  instance, whose data (ExecResult and NumExecution with it) is as it was.
\<close>

theorem execProposedTx_all_or_nothing:
  fixes c :: deferredData and s :: Service
  defines "instrs \<equiv> Instructions (ProposedTransaction c)"
  assumes exec: "body inst = Invoke cid ''execProposedTx'' args"
      and inv: "length (InstructionHashes c) = length instrs"
      and k: "k < length instrs"
      and fails:
        "GetContractConstructor (registry s) (proposedContractID (instrs ! k)) = None
         \<or> (\<exists>fn. GetContractConstructor (registry s) (proposedContractID (instrs ! k)) = Some fn \<and>
               (encodeInstruction s (instrs ! k) = None
                \<or> (\<exists>buf. encodeInstruction s (instrs ! k) = Some buf \<and>
                      ((\<exists>err. fn buf = Inl err)
                       \<or> (\<exists>contract. fn buf = Inr contract \<and>
                             (VerifyDeferredInstruction contract rst (instrs ! k) (InstructionHashes c ! k) \<noteq> None
                              \<or> snd (snd (snd (dispatch contract rst (instrs ! k)
                                    (coinsBefore s rst coins (InstructionHashes c) instrs k)))) \<noteq> None))))))"
  shows "\<exists>e cout. contractDeferred_Invoke s rst inst coins c = Returns (c, [], cout, Some e)"
proof -
  from k inv have kh: "k < length (InstructionHashes c)" by simp
  have step: "\<exists>e. execInstruction s rst left (InstructionHashes c) (0 + k) (instrs ! k) = Returns (Inl e)"
    if "execLoop s rst coins (InstructionHashes c) 0 (take k instrs) [] [] = Returns (Inr (ids', sc', left))"
    for ids' sc' left
    using execInstruction_step_failure[OF kh fails[unfolded coinsBefore_left[OF that]]] by simp
  have "\<exists>e. execLoop s rst coins (InstructionHashes c) 0 instrs [] [] = Returns (Inl e)"
    by (rule execLoop_fails[OF k _ step]) (simp_all add: inv)
  then obtain e where
    "execLoop s rst coins (InstructionHashes c) 0 instrs [] [] = Returns (Inl e)"
    by blast
  from execProposedTx_loop_failure[OF this[unfolded instrs_def] exec] show ?thesis
    by blast
qed

text \<open>
  On the small ledger: of two proposed instructions the first runs and yields an Update,
  the second names a contract that is not registered; nothing is returned but the error.
\<close>

theorem execProposedTx_all_or_nothing_witness:
  "body execInst = Invoke ''deferred'' ''execProposedTx'' [] \<and>
   length (InstructionHashes (testData 1 100 [coinTransfer, unknownSpawn]))
     = length (Instructions (ProposedTransaction (testData 1 100 [coinTransfer, unknownSpawn]))) \<and>
   (1::nat) < length (Instructions (ProposedTransaction (testData 1 100 [coinTransfer, unknownSpawn]))) \<and>
   GetContractConstructor (registry testService)
     (proposedContractID (Instructions (ProposedTransaction (testData 1 100 [coinTransfer, unknownSpawn])) ! 1)) = None \<and>
   execInstruction testService (testTrie 20) [\<lparr>coin_Name = [1], coin_Value = 5\<rparr>]
     (InstructionHashes (testData 1 100 [coinTransfer, unknownSpawn])) 0 coinTransfer
     = Returns (Inr ([\<lparr>coin_Name = [1], coin_Value = 5\<rparr>], [NewStateChange Update [7] ''coin'' [1] [9]])) \<and>
   (\<exists>e cout. contractDeferred_Invoke testService (testTrie 20) execInst [\<lparr>coin_Name = [1], coin_Value = 5\<rparr>]
                (testData 1 100 [coinTransfer, unknownSpawn])
              = Returns (testData 1 100 [coinTransfer, unknownSpawn], [], cout, Some e))"
proof -
  let ?c = "testData 1 100 [coinTransfer, unknownSpawn]"
  have h1: "body execInst = Invoke ''deferred'' ''execProposedTx'' []"
    by (simp add: execInst_def)
  have h2: "length (InstructionHashes ?c) = length (Instructions (ProposedTransaction ?c))"
    by (simp add: testData_def)
  have h3: "(1::nat) < length (Instructions (ProposedTransaction ?c))"
    by (simp add: testData_def)
  have h4: "GetContractConstructor (registry testService)
     (proposedContractID (Instructions (ProposedTransaction ?c) ! 1)) = None"
    by (simp add: testData_def proposedContractID_def GetType_def unknownSpawn_def fixture_registry_unknown)
  have h5: "execInstruction testService (testTrie 20) [\<lparr>coin_Name = [1], coin_Value = 5\<rparr>]
     (InstructionHashes ?c) 0 coinTransfer
     = Returns (Inr ([\<lparr>coin_Name = [1], coin_Value = 5\<rparr>], [NewStateChange Update [7] ''coin'' [1] [9]]))"
    by (simp add: fixture_hashes_length fixture_exec_coinTransfer)
  note concl = execProposedTx_all_or_nothing[OF h1 h2 h3 disjI1[OF h4],
      of "testTrie 20" "[\<lparr>coin_Name = [1], coin_Value = 5\<rparr>]"]
  show ?thesis using h1 h2 h3 h4 h5 concl by blast
qed

text \<open>
  C4. When an \<open>execProposedTx\<close> Invoke succeeds, the data written by the emitted Update
  is the previous data with ExecResult replaced by the derived identifiers of the
  proposed instructions in stored order and NumExecution decreased by exactly 1 (in
  64-bit arithmetic; by one as a number when it was not 0), and the state changes are
  the effects of the proposed instructions in order followed by exactly one Update of
  the deferred instance itself. The effects of proposed instruction \<open>i\<close> are the state
  changes \<open>parts ! i\<close> that the method of its target contract returned without error: the
  contract is the one the registry builds for the contract identifier of the instruction
  from its encoding, it accepted the instruction against the stored hash \<open>i\<close>, and its
  Spawn, Invoke or Delete, as the kind of the instruction says, was called on the
  instruction with the coins \<open>slices ! i\<close> that the calls before it had left in the slice
  of the deferred contract.
\<close>

theorem execProposedTx_success:
  fixes c :: deferredData
  defines "instrs \<equiv> Instructions (ProposedTransaction c)"
  assumes exec: "body inst = Invoke cid ''execProposedTx'' args"
      and ok: "contractDeferred_Invoke s rst inst coins c = Returns (c', sc, cout, None)"
  shows "\<exists>parts slices resultBuf v ver cid' darcID.
           GetValues rst (InstanceID inst) = Inr (v, ver, cid', darcID) \<and>
           length parts = length instrs \<and>
           length slices = Suc (length instrs) \<and>
           slices ! 0 = coins \<and>
           (\<forall>i<length instrs. \<exists>fn buf contract written cout'.
              GetContractConstructor (registry s) (targetContractID (body (instrs ! i))) = Some fn \<and>
              encodeInstruction s (instrs ! i) = Some buf \<and>
              fn buf = Inr contract \<and>
              i < length (InstructionHashes c) \<and>
              VerifyDeferredInstruction contract rst (instrs ! i) (InstructionHashes c ! i) = None \<and>
              targetCall contract rst (instrs ! i) (slices ! i) = (written, parts ! i, cout', None) \<and>
              slices ! Suc i = leftInSlice (slices ! i) written) \<and>
           c' = c\<lparr>ExecResult := map (\<lambda>p. DeriveID s p '''') instrs, NumExecution := NumExecution c - 1\<rparr> \<and>
           (NumExecution c \<noteq> 0 \<longrightarrow> unat (NumExecution c') + 1 = unat (NumExecution c)) \<and>
           encodeDeferredData s c' = Some resultBuf \<and>
           sc = concat parts @ [NewStateChange Update (InstanceID inst) ContractDeferredID resultBuf darcID]"
proof -
  from execProposedTx_returns[OF exec ok] obtain v ver cid' darcID ids nested resultBuf where
    gv: "GetValues rst (InstanceID inst) = Inr (v, ver, cid', darcID)" and
    loop: "execLoop s rst coins (InstructionHashes c) 0 instrs [] [] = Returns (Inr (ids, nested, cout))" and
    c': "c' = c\<lparr>ExecResult := ids, NumExecution := NumExecution c - 1\<rparr>" and
    enc: "encodeDeferredData s c' = Some resultBuf" and
    sc: "sc = nested @ [NewStateChange Update (InstanceID inst) ContractDeferredID resultBuf darcID]"
    unfolding instrs_def by blast
  from execLoop_succeeds[OF loop] obtain parts slices where
    ids: "ids = map (\<lambda>p. DeriveID s p '''') instrs" and
    len: "length parts = length instrs" and
    lens: "length slices = Suc (length instrs)" and
    first: "slices ! 0 = coins" and
    each: "\<forall>j<length instrs. execInstruction s rst (slices ! j) (InstructionHashes c) j (instrs ! j)
                               = Returns (Inr (slices ! Suc j, parts ! j))" and
    nested: "nested = concat parts"
    by auto
  have calls: "\<forall>i<length instrs. \<exists>fn buf contract written cout'.
              GetContractConstructor (registry s) (targetContractID (body (instrs ! i))) = Some fn \<and>
              encodeInstruction s (instrs ! i) = Some buf \<and>
              fn buf = Inr contract \<and>
              i < length (InstructionHashes c) \<and>
              VerifyDeferredInstruction contract rst (instrs ! i) (InstructionHashes c ! i) = None \<and>
              targetCall contract rst (instrs ! i) (slices ! i) = (written, parts ! i, cout', None) \<and>
              slices ! Suc i = leftInSlice (slices ! i) written"
    using each unfolding execInstruction_Inr by blast
  have dec: "NumExecution c \<noteq> 0 \<longrightarrow> unat (NumExecution c') + 1 = unat (NumExecution c)"
    using c' by (simp add: unat_minus_one unat_gt_0 Suc_leI)
  show ?thesis
    using gv len lens first calls c' enc sc ids nested dec by blast
qed

text \<open>
  On the small ledger, with one coin of value 5 and the two proposed instructions: the
  result holds the one effect of the Invoke of \<open>coin\<close>, the two effects of the Spawn of
  \<open>pay\<close>, and the Update of the deferred instance, in this order.
\<close>

theorem execProposedTx_success_witness:
  "body execInst = Invoke ''deferred'' ''execProposedTx'' [] \<and>
   contractDeferred_Invoke testService (testTrie 20) execInst [\<lparr>coin_Name = [1], coin_Value = 5\<rparr>]
       (testData 1 100 [coinTransfer, paySpawn])
     = Returns ((testData 1 100 [coinTransfer, paySpawn])\<lparr>ExecResult := [[255, 7], [255, 6]], NumExecution := 0\<rparr>,
                [NewStateChange Update [7] ''coin'' [1] [9],
                 NewStateChange Create [255, 6] ''pay'' [2] [9],
                 NewStateChange Update [6] ''pay'' [3] [9],
                 NewStateChange Update [255, 3] ''deferred'' [0] [9]],
                [\<lparr>coin_Name = [1], coin_Value = 4\<rparr>], None) \<and>
   targetCall coinContract (testTrie 20) coinTransfer [\<lparr>coin_Name = [1], coin_Value = 5\<rparr>]
     = ([\<lparr>coin_Name = [1], coin_Value = 5\<rparr>], [NewStateChange Update [7] ''coin'' [1] [9]], [], None) \<and>
   targetCall payContract (testTrie 20) paySpawn [\<lparr>coin_Name = [1], coin_Value = 5\<rparr>]
     = ([\<lparr>coin_Name = [1], coin_Value = 4\<rparr>],
        [NewStateChange Create [255, 6] ''pay'' [2] [9], NewStateChange Update [6] ''pay'' [3] [9]],
        [\<lparr>coin_Name = [1], coin_Value = 4\<rparr>], None) \<and>
   (\<exists>parts slices resultBuf darcID.
      length parts = 2 \<and>
      slices ! 0 = [\<lparr>coin_Name = [1], coin_Value = 5\<rparr>] \<and>
      slices ! 1 = [\<lparr>coin_Name = [1], coin_Value = 5\<rparr>] \<and>
      slices ! 2 = [\<lparr>coin_Name = [1], coin_Value = 4\<rparr>] \<and>
      parts ! 0 = [NewStateChange Update [7] ''coin'' [1] [9]] \<and>
      parts ! 1 = [NewStateChange Create [255, 6] ''pay'' [2] [9], NewStateChange Update [6] ''pay'' [3] [9]] \<and>
      (testData 1 100 [coinTransfer, paySpawn])\<lparr>ExecResult := [[255, 7], [255, 6]], NumExecution := 0\<rparr>
        = (testData 1 100 [coinTransfer, paySpawn])
            \<lparr>ExecResult := map (\<lambda>p. DeriveID testService p '''') [coinTransfer, paySpawn],
             NumExecution := NumExecution (testData 1 100 [coinTransfer, paySpawn]) - 1\<rparr> \<and>
      encodeDeferredData testService
          ((testData 1 100 [coinTransfer, paySpawn])\<lparr>ExecResult := [[255, 7], [255, 6]], NumExecution := 0\<rparr>)
        = Some resultBuf \<and>
      [NewStateChange Update [7] ''coin'' [1] [9],
       NewStateChange Create [255, 6] ''pay'' [2] [9],
       NewStateChange Update [6] ''pay'' [3] [9],
       NewStateChange Update [255, 3] ''deferred'' [0] [9]]
        = concat parts @ [NewStateChange Update (InstanceID execInst) ContractDeferredID resultBuf darcID])"
proof -
  let ?coins = "[\<lparr>coin_Name = [1], coin_Value = (5 :: 64 word)\<rparr>]"
  let ?left = "[\<lparr>coin_Name = [1], coin_Value = (4 :: 64 word)\<rparr>]"
  let ?c = "testData 1 100 [coinTransfer, paySpawn]"
  let ?c1 = "?c\<lparr>ExecResult := [[255, 7], [255, 6]], NumExecution := 0\<rparr>"
  have h1: "body execInst = Invoke ''deferred'' ''execProposedTx'' []"
    by (simp add: execInst_def)
  note h2 = fixture_exec_pay[of 20 100]
  have t1: "targetCall coinContract (testTrie 20) coinTransfer ?coins
              = (?coins, [NewStateChange Update [7] ''coin'' [1] [9]], [], None)"
    by (simp add: targetCall_def coinTransfer_def coinContract_def)
  have t2: "targetCall payContract (testTrie 20) paySpawn ?coins
              = (?left, [NewStateChange Create [255, 6] ''pay'' [2] [9],
                         NewStateChange Update [6] ''pay'' [3] [9]], ?left, None)"
    by (simp add: targetCall_def paySpawn_def payContract_def fixture_payPrice)
  have i2: "Instructions (ProposedTransaction ?c) = [coinTransfer, paySpawn]"
    by (rule fixture_instrs)
  from execProposedTx_success[OF h1 h2, unfolded i2] obtain parts slices resultBuf v ver cid' darcID where
    len: "length parts = length [coinTransfer, paySpawn]" and
    first: "slices ! 0 = ?coins" and
    calls: "\<forall>i<length [coinTransfer, paySpawn]. \<exists>fn buf contract written cout'.
              GetContractConstructor (registry testService) (targetContractID (body ([coinTransfer, paySpawn] ! i))) = Some fn \<and>
              encodeInstruction testService ([coinTransfer, paySpawn] ! i) = Some buf \<and>
              fn buf = Inr contract \<and>
              i < length (InstructionHashes ?c) \<and>
              VerifyDeferredInstruction contract (testTrie 20) ([coinTransfer, paySpawn] ! i) (InstructionHashes ?c ! i) = None \<and>
              targetCall contract (testTrie 20) ([coinTransfer, paySpawn] ! i) (slices ! i) = (written, parts ! i, cout', None) \<and>
              slices ! Suc i = leftInSlice (slices ! i) written" and
    c': "?c1 = ?c\<lparr>ExecResult := map (\<lambda>p. DeriveID testService p '''') [coinTransfer, paySpawn],
                    NumExecution := NumExecution ?c - 1\<rparr>" and
    enc: "encodeDeferredData testService ?c1 = Some resultBuf" and
    sc: "[NewStateChange Update [7] ''coin'' [1] [9],
          NewStateChange Create [255, 6] ''pay'' [2] [9],
          NewStateChange Update [6] ''pay'' [3] [9],
          NewStateChange Update [255, 3] ''deferred'' [0] [9]]
           = concat parts @ [NewStateChange Update (InstanceID execInst) ContractDeferredID resultBuf darcID]"
    by blast
  have n0: "targetContractID (body coinTransfer) = ''coin''"
    and n1: "targetContractID (body paySpawn) = ''pay''"
    by (simp_all add: targetContractID_def coinTransfer_def paySpawn_def)
  from calls[rule_format, of 0] obtain written0 cout0 where
    "targetCall coinContract (testTrie 20) coinTransfer (slices ! 0) = (written0, parts ! 0, cout0, None)"
    "slices ! Suc 0 = leftInSlice (slices ! 0) written0"
    by (auto simp: n0 fixture_registry_coin)
  then have p0: "parts ! 0 = [NewStateChange Update [7] ''coin'' [1] [9]]" and s1': "slices ! Suc 0 = ?coins"
    by (auto simp: first t1 leftInSlice_def)
  from calls[rule_format, of "Suc 0"] obtain written1 cout1 where
    "targetCall payContract (testTrie 20) paySpawn (slices ! Suc 0) = (written1, parts ! Suc 0, cout1, None)"
    "slices ! Suc (Suc 0) = leftInSlice (slices ! Suc 0) written1"
    by (auto simp: n1 fixture_registry_pay)
  then have p1': "parts ! Suc 0 = [NewStateChange Create [255, 6] ''pay'' [2] [9],
                                  NewStateChange Update [6] ''pay'' [3] [9]]"
    and s2': "slices ! Suc (Suc 0) = ?left"
    unfolding s1' t2 by (auto simp: leftInSlice_def)
  from s1' have s1: "slices ! 1 = ?coins"
    by simp
  from s2' have s2: "slices ! 2 = ?left"
    by (simp add: numeral_2_eq_2)
  from p1' have p1: "parts ! 1 = [NewStateChange Create [255, 6] ''pay'' [2] [9],
                                 NewStateChange Update [6] ''pay'' [3] [9]]"
    by simp
  from len have len2: "length parts = 2"
    by simp
  from h1 h2 t1 t2 len2 first s1 s2 p0 p1 c' enc sc show ?thesis
    by blast
qed

subsection \<open>What Spawn writes\<close>

lemma Spawn_success:
  assumes "contractDeferred_Spawn s rst inst coins = Returns (sc, cout, None)"
  shows "\<exists>cid args data dataBuf v ver cid' darcID.
           body inst = Spawn cid args \<and>
           GetValues rst (InstanceID inst) = Inr (v, ver, cid', darcID) \<and>
           spawnData s inst args = Inr data \<and>
           encodeDeferredData s data = Some dataBuf \<and>
           sc = [NewStateChange Create (DeriveID s inst '''') ContractDeferredID dataBuf darcID] \<and>
           cout = coins"
  using assms
  by (auto simp: contractDeferred_Spawn_def
      split: sum.splits prod.splits Body.splits option.splits)

lemma spawnData_hashes:
  assumes "spawnData s inst args = Inr data"
  shows "InstructionHashes data
           = map (\<lambda>p. hashDeferred (sha256 s) p (InstanceID inst)) (Instructions (ProposedTransaction data))
         \<and> ExecResult data = []"
  using assms
  by (auto simp: spawnData_def Let_def split: option.splits if_splits)

lemma fixture_ParseUint_100: "ParseUint [49, 48, 48] = Some 100"
  by (simp add: ParseUint_def digitVal_def)

lemma fixture_ParseUint_1: "ParseUint [49] = Some 1"
  by (simp add: ParseUint_def digitVal_def)

lemma fixture_spawnData:
  "spawnData testService spawnInst (spawn_Args (body spawnInst)) = Inr (testData 1 100 [coinTransfer])"
  by (simp add: testService_def spawnInst_def spawnData_def orNil_def
      fixture_ParseUint_100 fixture_ParseUint_1 testData_def)

lemma fixture_spawn_succeeds:
  "contractDeferred_Spawn testService (testTrie n) spawnInst coins
     = Returns ([NewStateChange Create [255, 3] ''deferred'' [1] [9]], coins, None)"
proof -
  have b: "body spawnInst = Spawn ''deferred'' (spawn_Args (body spawnInst))"
    by (simp add: spawnInst_def)
  have i: "InstanceID spawnInst = [3]"
    by (simp add: spawnInst_def)
  show ?thesis
    unfolding contractDeferred_Spawn_def fixture_GetValues
    by (subst b) (simp add: fixture_spawnData fixture_encodeDeferredData fixture_DeriveID i
        ContractDeferredID_def, simp add: testData_def)
qed

lemma fixture_delete_succeeds:
  "contractDeferred_Delete (testTrie n) execInst coins
     = Returns ([NewStateChange Remove [255, 3] ''deferred'' [] [9]], coins, None)"
  by (simp add: contractDeferred_Delete_def fixture_GetValues execInst_def ContractDeferredID_def)

text \<open>
  C2 (as the code has it). For every Spawn of a deferred instance that succeeds, the one
  state change is a Create under the derived identifier \<^verbatim>\<open>inst.DeriveID("")\<close> of the data
  built from the arguments, and each entry of InstructionHashes is the canonical deferred
  hash of the corresponding proposed instruction with the binding identifier equal to
  \<^verbatim>\<open>inst.InstanceID\<close>, the identifier of the instance the Spawn instruction is addressed
  to, which is not the identifier under which the Create stores the new data.
\<close>

theorem Spawn_hashes_bound_to_spawning_instance:
  assumes "contractDeferred_Spawn s rst inst coins = Returns (sc, cout, None)"
  shows "\<exists>cid args data dataBuf v ver cid' darcID.
           body inst = Spawn cid args \<and>
           GetValues rst (InstanceID inst) = Inr (v, ver, cid', darcID) \<and>
           spawnData s inst args = Inr data \<and>
           encodeDeferredData s data = Some dataBuf \<and>
           sc = [NewStateChange Create (DeriveID s inst '''') ContractDeferredID dataBuf darcID] \<and>
           length (InstructionHashes data) = length (Instructions (ProposedTransaction data)) \<and>
           InstructionHashes data
             = map (\<lambda>p. hashDeferred (sha256 s) p (InstanceID inst)) (Instructions (ProposedTransaction data))"
proof -
  from Spawn_success[OF assms] obtain cid args data dataBuf v ver cid' darcID where
    b: "body inst = Spawn cid args" and
    gv: "GetValues rst (InstanceID inst) = Inr (v, ver, cid', darcID)" and
    d: "spawnData s inst args = Inr data" and
    e: "encodeDeferredData s data = Some dataBuf" and
    sc: "sc = [NewStateChange Create (DeriveID s inst '''') ContractDeferredID dataBuf darcID]"
    by blast
  from spawnData_hashes[OF d] have
    h: "InstructionHashes data
          = map (\<lambda>p. hashDeferred (sha256 s) p (InstanceID inst)) (Instructions (ProposedTransaction data))"
    by simp
  then have "length (InstructionHashes data) = length (Instructions (ProposedTransaction data))"
    by simp
  with b gv d e sc h show ?thesis by blast
qed

theorem Spawn_hashes_bound_to_spawning_instance_witness:
  "contractDeferred_Spawn testService (testTrie 10) spawnInst []
     = Returns ([NewStateChange Create [255, 3] ''deferred'' [1] [9]], [], None) \<and>
   (\<exists>cid args data dataBuf v ver cid' darcID.
      body spawnInst = Spawn cid args \<and>
      GetValues (testTrie 10) (InstanceID spawnInst) = Inr (v, ver, cid', darcID) \<and>
      spawnData testService spawnInst args = Inr data \<and>
      encodeDeferredData testService data = Some dataBuf \<and>
      [NewStateChange Create [255, 3] ''deferred'' [1] [9]]
        = [NewStateChange Create (DeriveID testService spawnInst '''') ContractDeferredID dataBuf darcID] \<and>
      length (InstructionHashes data) = length (Instructions (ProposedTransaction data)) \<and>
      InstructionHashes data
        = map (\<lambda>p. hashDeferred (sha256 testService) p (InstanceID spawnInst))
            (Instructions (ProposedTransaction data)))"
  using Spawn_hashes_bound_to_spawning_instance[OF fixture_spawn_succeeds[of 10 "[]"]]
    fixture_spawn_succeeds[of 10 "[]"]
  by blast

text \<open>
  The claim as stated fails on the small ledger: the Create is stored under the derived
  identifier \<open>[255, 3]\<close>, and the stored hash of the proposed instruction is bound to the
  identifier \<open>[3]\<close> the Spawn was addressed to; the hash bound to \<open>[255, 3]\<close> is another.
\<close>

theorem Spawn_hashes_new_instance_counterexample:
  "contractDeferred_Spawn testService (testTrie 10) spawnInst []
     = Returns ([NewStateChange Create (DeriveID testService spawnInst '''') ''deferred'' [1] [9]], [], None) \<and>
   spawnData testService spawnInst (spawn_Args (body spawnInst)) = Inr (testData 1 100 [coinTransfer]) \<and>
   Instructions (ProposedTransaction (testData 1 100 [coinTransfer])) ! 0 = coinTransfer \<and>
   InstructionHashes (testData 1 100 [coinTransfer]) ! 0
     = hashDeferred (sha256 testService) coinTransfer (InstanceID spawnInst) \<and>
   InstructionHashes (testData 1 100 [coinTransfer]) ! 0
     \<noteq> hashDeferred (sha256 testService) coinTransfer (DeriveID testService spawnInst '''')"
proof -
  have s: "sha256 testService = (\<lambda>b. b)"
    by (simp add: testService_def)
  have i: "InstanceID spawnInst = [3]"
    by (simp add: spawnInst_def)
  have n: "hashDeferred (\<lambda>b. b) coinTransfer [3] \<noteq> hashDeferred (\<lambda>b. b) coinTransfer [255, 3]"
    by (simp add: hashDeferred_def Let_def split: InstrType.splits)
  show ?thesis
    using fixture_spawn_succeeds[of 10 "[]"] fixture_spawnData n
    by (simp add: fixture_DeriveID s i testData_def)
qed

subsection \<open>The guard\<close>

lemma invokeGate_cases:
  "invokeGate rst c =
     (if NumExecution c = 0 then Some MaxExecutionsReached
      else if ExpireBlockIndex c < word_of_int (GetIndex rst)
           then Some (BlockIndexTooHigh (word_of_int (GetIndex rst)) (ExpireBlockIndex c))
           else None)"
  by (simp add: invokeGate_def Let_def word_less_1)

lemma one_le_word_iff: "1 \<le> w \<longleftrightarrow> w \<noteq> 0" for w :: "64 word"
  using word_less_1[of w] not_less[of w 1] by blast

lemma invokeGate_None:
  "invokeGate rst c = None \<longleftrightarrow> 1 \<le> NumExecution c \<and> word_of_int (GetIndex rst) \<le> ExpireBlockIndex c"
  by (auto simp: invokeGate_cases one_le_word_iff not_less)

lemma identityStored_iff:
  "identityStored eq identity ids \<longleftrightarrow> (\<exists>storedIdentity \<in> set ids. eq identity storedIdentity)"
  by (induction ids) auto

lemma VerifyInstruction_Invoke:
  assumes "body instr = Invoke cid command args"
  shows "contractDeferred_VerifyInstruction s rst instr ctxHash c =
           (case BasicVerifyInstruction s rst instr ctxHash of
              Some err \<Rightarrow> Returns (Some err)
            | None \<Rightarrow>
              (case invokeGate rst c of
                 Some err \<Rightarrow> Returns (Some err)
               | None \<Rightarrow> if command = ''addProof'' then verifyAddProof s args c else Returns None))"
  using assms by (simp add: contractDeferred_VerifyInstruction_def split: option.splits)

lemma fixture_Uint32_0: "Uint32 [0, 0, 0, 0] = 0"
  by (simp add: Uint32_def)

lemma fixture_Uint32_1: "Uint32 [1, 0, 0, 0] = 1"
  by (simp add: Uint32_def)

lemma fixture_decodeIdentity: "decodeIdentity testService [65] = Some ''A''"
  by (simp add: testService_def)

lemma fixture_addProof_args:
  "body (addProofInst index identity signature)
     = Invoke ''deferred'' ''addProof''
         [\<lparr>Name = ''identity'', Value = identity\<rparr>,
          \<lparr>Name = ''signature'', Value = signature\<rparr>,
          \<lparr>Name = ''index'', Value = index\<rparr>]"
  by (simp add: addProofInst_def)

lemma fixture_execInst_body: "body execInst = Invoke ''deferred'' ''execProposedTx'' []"
  by (simp add: execInst_def)

lemma verifiedInvoke_rejected:
  "contractDeferred_VerifyInstruction s rst instr ctxHash c = Returns (Some e) \<Longrightarrow>
     verifiedInvoke s rst instr ctxHash coins c = Returns (c, [], [], Some e)"
  by (simp add: verifiedInvoke_def)

lemma stored_rejected: "stored c (Returns (c0, sc, cout, Some e)) = c"
  by (simp add: stored_def)

lemma fixture_addProof_succeeds:
  "verifiedInvoke testService (testTrie 10)
       (addProofInst [0, 0, 0, 0] [65] (hashDeferred (\<lambda>b. b) coinTransfer [3])) [] coins
       (testData 1 100 [coinTransfer])
     = Returns (addSignature (testData 1 100 [coinTransfer]) 0 ''A'' (hashDeferred (\<lambda>b. b) coinTransfer [3]),
                [NewStateChange Update [255, 3] ''deferred'' [1] [9]], coins, None)"
proof -
  let ?c = "testData 1 100 [coinTransfer]"
  let ?h = "hashDeferred (\<lambda>b. b) coinTransfer [3]"
  let ?i = "addProofInst [0, 0, 0, 0] [65] ?h"
  let ?args = "[\<lparr>Name = ''identity'', Value = [65]\<rparr>, \<lparr>Name = ''signature'', Value = ?h\<rparr>,
               \<lparr>Name = ''index'', Value = [0, 0, 0, 0]\<rparr>]"
  have n: "length (Instructions (ProposedTransaction ?c)) = 1"
          "length (InstructionHashes ?c) = 1"
          "InstructionHashes ?c ! 0 = ?h"
          "SignerIdentities (Instructions (ProposedTransaction ?c) ! 0) = []"
    by (simp_all add: testData_def coinTransfer_def)
  have g: "invokeGate (testTrie 10) ?c = None"
    by (simp add: invokeGate_cases testData_def testTrie_def)
  have eqv: "identity_Equal testService = (\<lambda>a b. a = b)"
            "identity_Verify testService ''A'' ?h ?h = None"
    by (simp_all add: testService_def)
  have va: "verifyAddProof testService ?args ?c = Returns None"
    by (simp add: verifyAddProof_def fixture_decodeIdentity fixture_Uint32_0 n eqv)
  have v: "contractDeferred_VerifyInstruction testService (testTrie 10) ?i [] ?c = Returns None"
    by (simp add: VerifyInstruction_Invoke[OF fixture_addProof_args] fixture_BasicVerify g va)
  have nx: "NumExecution (addSignature ?c 0 ''A'' ?h) = 1"
    by (simp add: addSignature_def Let_def testData_def)
  have ap: "addProof testService ?i coins [9] ?args ?c
              = Returns (addSignature ?c 0 ''A'' ?h,
                         [NewStateChange Update [255, 3] ''deferred'' [1] [9]], coins, None)"
    by (simp add: addProof_def fixture_decodeIdentity fixture_Uint32_0 n fixture_encodeDeferredData nx
        ContractDeferredID_def addProofInst_def)
  have i: "contractDeferred_Invoke testService (testTrie 10) ?i coins ?c
            = Returns (addSignature ?c 0 ''A'' ?h,
                       [NewStateChange Update [255, 3] ''deferred'' [1] [9]], coins, None)"
    by (simp add: contractDeferred_Invoke_def fixture_GetValues fixture_addProof_args ap)
  show ?thesis
    by (simp add: verifiedInvoke_def v i)
qed

text \<open>
  C6 (as the code has it). For every deferred instance and every Invoke instruction (any
  command), if the current block index is strictly greater than the stored
  ExpireBlockIndex then VerifyInstruction rejects the instruction. The checks run in the
  order base authorization, execution counter, block index: the error is the expiry
  error when the base check passes and NumExecution is at least 1, and the
  execution-ceiling error when the base check passes and NumExecution is 0.
\<close>

theorem VerifyInstruction_expired:
  assumes "body instr = Invoke cid command args"
      and "ExpireBlockIndex c < word_of_int (GetIndex rst)"
  shows "(\<exists>e. contractDeferred_VerifyInstruction s rst instr ctxHash c = Returns (Some e)) \<and>
         (BasicVerifyInstruction s rst instr ctxHash = None \<and> 1 \<le> NumExecution c \<longrightarrow>
            contractDeferred_VerifyInstruction s rst instr ctxHash c
              = Returns (Some (BlockIndexTooHigh (word_of_int (GetIndex rst)) (ExpireBlockIndex c)))) \<and>
         (BasicVerifyInstruction s rst instr ctxHash = None \<and> NumExecution c = 0 \<longrightarrow>
            contractDeferred_VerifyInstruction s rst instr ctxHash c = Returns (Some MaxExecutionsReached))"
proof -
  have one: "1 \<le> NumExecution c \<Longrightarrow> NumExecution c \<noteq> 0"
    by auto
  show ?thesis
    using assms(2) one
    by (cases "BasicVerifyInstruction s rst instr ctxHash")
      (auto simp: VerifyInstruction_Invoke[OF assms(1)] invokeGate_cases)
qed

theorem VerifyInstruction_expired_witness:
  "body execInst = Invoke ''deferred'' ''execProposedTx'' [] \<and>
   ExpireBlockIndex (testData 1 5 [coinTransfer]) < word_of_int (GetIndex (testTrie 20)) \<and>
   BasicVerifyInstruction testService (testTrie 20) execInst [] = None \<and>
   1 \<le> NumExecution (testData 1 5 [coinTransfer]) \<and>
   contractDeferred_VerifyInstruction testService (testTrie 20) execInst [] (testData 1 5 [coinTransfer])
     = Returns (Some (BlockIndexTooHigh 20 5)) \<and>
   ExpireBlockIndex (testData 0 5 [coinTransfer]) < word_of_int (GetIndex (testTrie 20)) \<and>
   NumExecution (testData 0 5 [coinTransfer]) = 0 \<and>
   contractDeferred_VerifyInstruction testService (testTrie 20) execInst [] (testData 0 5 [coinTransfer])
     = Returns (Some MaxExecutionsReached)"
proof -
  have h1: "body execInst = Invoke ''deferred'' ''execProposedTx'' []"
    by (rule fixture_execInst_body)
  have h2: "ExpireBlockIndex (testData 1 5 [coinTransfer]) < word_of_int (GetIndex (testTrie 20))"
    by (simp add: testData_def testTrie_def)
  have h3: "BasicVerifyInstruction testService (testTrie 20) execInst [] = None"
    by (rule fixture_BasicVerify)
  have h4: "1 \<le> NumExecution (testData 1 5 [coinTransfer])"
    by (simp add: testData_def)
  have v: "word_of_int (GetIndex (testTrie 20)) = (20 :: 64 word)"
          "ExpireBlockIndex (testData 1 5 [coinTransfer]) = 5"
    by (simp_all add: testData_def testTrie_def)
  from VerifyInstruction_expired[OF h1 h2, of testService "[]"] h3 h4
  have a: "contractDeferred_VerifyInstruction testService (testTrie 20) execInst [] (testData 1 5 [coinTransfer])
     = Returns (Some (BlockIndexTooHigh 20 5))"
    unfolding v by blast
  have k2: "ExpireBlockIndex (testData 0 5 [coinTransfer]) < word_of_int (GetIndex (testTrie 20))"
    by (simp add: testData_def testTrie_def)
  have k4: "NumExecution (testData 0 5 [coinTransfer]) = 0"
    by (simp add: testData_def)
  from VerifyInstruction_expired[OF h1 k2, of testService "[]"] h3 k4
  have b: "contractDeferred_VerifyInstruction testService (testTrie 20) execInst [] (testData 0 5 [coinTransfer])
     = Returns (Some MaxExecutionsReached)"
    by blast
  from h1 h2 h3 h4 a k2 k4 b show ?thesis by blast
qed

text \<open>
  The claim as stated fails where no execution remains: at block index 20, past the
  expiry index 5, an instance with NumExecution 0 is rejected with the execution-ceiling
  error, not with the expiry error.
\<close>

theorem VerifyInstruction_expired_counterexample:
  "body execInst = Invoke ''deferred'' ''execProposedTx'' [] \<and>
   ExpireBlockIndex (testData 0 5 [coinTransfer]) < word_of_int (GetIndex (testTrie 20)) \<and>
   BasicVerifyInstruction testService (testTrie 20) execInst [] = None \<and>
   contractDeferred_VerifyInstruction testService (testTrie 20) execInst [] (testData 0 5 [coinTransfer])
     = Returns (Some MaxExecutionsReached) \<and>
   contractDeferred_VerifyInstruction testService (testTrie 20) execInst [] (testData 0 5 [coinTransfer])
     \<noteq> Returns (Some (BlockIndexTooHigh (word_of_int (GetIndex (testTrie 20)))
                           (ExpireBlockIndex (testData 0 5 [coinTransfer]))))"
proof -
  have g: "invokeGate (testTrie 20) (testData 0 5 [coinTransfer]) = Some MaxExecutionsReached"
    by (simp add: invokeGate_cases testData_def)
  have h2: "ExpireBlockIndex (testData 0 5 [coinTransfer]) < word_of_int (GetIndex (testTrie 20))"
    by (simp add: testData_def testTrie_def)
  show ?thesis
    using h2
    by (simp add: VerifyInstruction_Invoke[OF fixture_execInst_body] fixture_BasicVerify g
        fixture_execInst_body)
qed

text \<open>
  C3. An \<open>addProof\<close> Invoke with a well-formed 4-byte index, a decodable identity and a
  signature, whose index is not below the number of proposed instructions, should be
  answered with an error. The body of Invoke has the range check, but VerifyInstruction,
  which runs first, indexes the proposed instructions without one: whenever the base
  check and the two global checks pass, verification followed by the body panics.
\<close>

theorem addProof_index_out_of_range_panics:
  assumes "body instr = Invoke cid ''addProof'' args"
      and "Search args ''index'' = Some indexBuf" and "length indexBuf = 4"
      and "Search args ''identity'' = Some identityBuf"
      and "decodeIdentity s identityBuf = Some identity"
      and "Search args ''signature'' = Some signature"
      and "length (Instructions (ProposedTransaction c)) \<le> unat (Uint32 indexBuf)"
      and "BasicVerifyInstruction s rst instr ctxHash = None"
      and "1 \<le> NumExecution c" and "word_of_int (GetIndex rst) \<le> ExpireBlockIndex c"
  shows "contractDeferred_VerifyInstruction s rst instr ctxHash c = Panics IndexOutOfRangePanic \<and>
         verifiedInvoke s rst instr ctxHash coins c = Panics IndexOutOfRangePanic"
proof -
  have g: "invokeGate rst c = None"
    using assms(9,10) by (simp add: invokeGate_None)
  have va: "verifyAddProof s args c = Panics IndexOutOfRangePanic"
    using assms(2-5,7) by (simp add: verifyAddProof_def)
  have v: "contractDeferred_VerifyInstruction s rst instr ctxHash c = Panics IndexOutOfRangePanic"
    by (simp add: VerifyInstruction_Invoke[OF assms(1)] assms(8) g va)
  then show ?thesis
    by (simp add: verifiedInvoke_def)
qed

text \<open>
  On the small ledger, with one proposed instruction and the index 1: the body of Invoke
  alone answers with the out-of-range error; the guard and the guarded invocation panic.
\<close>

theorem addProof_index_out_of_range_panics_witness:
  "body (addProofInst [1, 0, 0, 0] [65] [2])
     = Invoke ''deferred'' ''addProof''
         [\<lparr>Name = ''identity'', Value = [65]\<rparr>, \<lparr>Name = ''signature'', Value = [2]\<rparr>,
          \<lparr>Name = ''index'', Value = [1, 0, 0, 0]\<rparr>] \<and>
   length (Instructions (ProposedTransaction (testData 1 100 [coinTransfer]))) = 1 \<and>
   unat (Uint32 [1, 0, 0, 0]) = 1 \<and>
   decodeIdentity testService [65] = Some ''A'' \<and>
   BasicVerifyInstruction testService (testTrie 20) (addProofInst [1, 0, 0, 0] [65] [2]) [] = None \<and>
   1 \<le> NumExecution (testData 1 100 [coinTransfer]) \<and>
   word_of_int (GetIndex (testTrie 20)) \<le> ExpireBlockIndex (testData 1 100 [coinTransfer]) \<and>
   contractDeferred_Invoke testService (testTrie 20) (addProofInst [1, 0, 0, 0] [65] [2]) []
       (testData 1 100 [coinTransfer])
     = Returns (testData 1 100 [coinTransfer], [], [], Some (IndexOutOfRange 1 1)) \<and>
   contractDeferred_VerifyInstruction testService (testTrie 20) (addProofInst [1, 0, 0, 0] [65] [2]) []
       (testData 1 100 [coinTransfer])
     = Panics IndexOutOfRangePanic \<and>
   verifiedInvoke testService (testTrie 20) (addProofInst [1, 0, 0, 0] [65] [2]) [] []
       (testData 1 100 [coinTransfer])
     = Panics IndexOutOfRangePanic"
proof -
  let ?c = "testData 1 100 [coinTransfer]"
  let ?i = "addProofInst [1, 0, 0, 0] [65] [2]"
  let ?args = "[\<lparr>Name = ''identity'', Value = [65]\<rparr>, \<lparr>Name = ''signature'', Value = [2]\<rparr>,
               \<lparr>Name = ''index'', Value = [1, 0, 0, 0]\<rparr>]"
  have n: "length (Instructions (ProposedTransaction ?c)) = 1"
    by (simp add: testData_def)
  have u: "unat (Uint32 [1, 0, 0, 0]) = 1"
    by (simp add: fixture_Uint32_1)
  have s1: "Search ?args ''index'' = Some [1, 0, 0, 0]" by simp
  have s2: "length [1 :: byte, 0, 0, 0] = 4" by simp
  have s3: "Search ?args ''identity'' = Some [65]" by simp
  have s4: "Search ?args ''signature'' = Some [2]" by simp
  have r: "length (Instructions (ProposedTransaction ?c)) \<le> unat (Uint32 [1, 0, 0, 0])"
    by (simp add: n u)
  have b: "BasicVerifyInstruction testService (testTrie 20) ?i [] = None"
    by (rule fixture_BasicVerify)
  have g1: "1 \<le> NumExecution ?c"
    by (simp add: testData_def)
  have g2: "word_of_int (GetIndex (testTrie 20)) \<le> ExpireBlockIndex ?c"
    by (simp add: testData_def testTrie_def)
  have ap: "addProof testService ?i [] [9] ?args ?c = Returns (?c, [], [], Some (IndexOutOfRange 1 1))"
    by (simp add: addProof_def fixture_Uint32_1 n)
  have i: "contractDeferred_Invoke testService (testTrie 20) ?i [] ?c
            = Returns (?c, [], [], Some (IndexOutOfRange 1 1))"
    by (simp add: contractDeferred_Invoke_def fixture_GetValues fixture_addProof_args ap)
  note p = addProof_index_out_of_range_panics[OF fixture_addProof_args s1 s2 s3
      fixture_decodeIdentity s4 r b g1 g2, of "[]"]
  from fixture_addProof_args[of "[1, 0, 0, 0]" "[65]" "[2]"] n u fixture_decodeIdentity b g1 g2 i p
  show ?thesis by blast
qed

text \<open>
  C8 (as the code has it). For every deferred instance and every \<open>addProof\<close> Invoke
  whose identity already appears (for \<^verbatim>\<open>Identity.Equal\<close>) among the signer identities
  collected for the targeted proposed instruction, verification rejects the instruction,
  no state change is emitted and the stored DeferredData after the rejected call is the
  data before it. The error is the error of the base authorization if that fails; else
  the execution-ceiling error if NumExecution is 0; else the expiry error if the block
  index is above ExpireBlockIndex; else the duplicate-proof error.
\<close>

theorem addProof_duplicate_rejected:
  assumes b: "body instr = Invoke cid ''addProof'' args"
      and ib: "Search args ''identity'' = Some identityBuf"
      and di: "decodeIdentity s identityBuf = Some identity"
      and ix: "Search args ''index'' = Some indexBuf"
      and il: "4 \<le> length indexBuf"
      and rng: "unat (Uint32 indexBuf) < length (Instructions (ProposedTransaction c))"
      and dup: "\<exists>storedIdentity \<in> set (SignerIdentities
                    (Instructions (ProposedTransaction c) ! unat (Uint32 indexBuf))).
                  identity_Equal s identity storedIdentity"
  shows "(\<exists>e. contractDeferred_VerifyInstruction s rst instr ctxHash c = Returns (Some e)
              \<and> verifiedInvoke s rst instr ctxHash coins c = Returns (c, [], [], Some e)) \<and>
         contractDeferred_VerifyInstruction s rst instr ctxHash c
           = Returns (Some (case BasicVerifyInstruction s rst instr ctxHash of
                              Some err \<Rightarrow> err
                            | None \<Rightarrow>
                                if NumExecution c = 0 then MaxExecutionsReached
                                else if ExpireBlockIndex c < word_of_int (GetIndex rst)
                                then BlockIndexTooHigh (word_of_int (GetIndex rst)) (ExpireBlockIndex c)
                                else IdentityAlreadyStored)) \<and>
         (BasicVerifyInstruction s rst instr ctxHash = None \<and> 1 \<le> NumExecution c
            \<and> word_of_int (GetIndex rst) \<le> ExpireBlockIndex c \<longrightarrow>
          contractDeferred_VerifyInstruction s rst instr ctxHash c = Returns (Some IdentityAlreadyStored)) \<and>
         stored c (verifiedInvoke s rst instr ctxHash coins c) = c \<and>
         run s c [(rst, instr, ctxHash, coins)] = c"
proof -
  have va: "verifyAddProof s args c = Returns (Some IdentityAlreadyStored)"
    using ib di ix il rng dup by (simp add: verifyAddProof_def identityStored_iff)
  have v: "contractDeferred_VerifyInstruction s rst instr ctxHash c
           = Returns (Some (case BasicVerifyInstruction s rst instr ctxHash of
                              Some err \<Rightarrow> err
                            | None \<Rightarrow>
                                if NumExecution c = 0 then MaxExecutionsReached
                                else if ExpireBlockIndex c < word_of_int (GetIndex rst)
                                then BlockIndexTooHigh (word_of_int (GetIndex rst)) (ExpireBlockIndex c)
                                else IdentityAlreadyStored))"
    by (simp add: VerifyInstruction_Invoke[OF b] va invokeGate_cases split: option.splits)
  then obtain e where e: "contractDeferred_VerifyInstruction s rst instr ctxHash c = Returns (Some e)"
    by blast
  note r = verifiedInvoke_rejected[OF e, of coins]
  have gate: "BasicVerifyInstruction s rst instr ctxHash = None \<and> 1 \<le> NumExecution c
            \<and> word_of_int (GetIndex rst) \<le> ExpireBlockIndex c \<longrightarrow>
          contractDeferred_VerifyInstruction s rst instr ctxHash c = Returns (Some IdentityAlreadyStored)"
    using v by (auto simp: one_le_word_iff not_less[symmetric])
  have st: "stored c (verifiedInvoke s rst instr ctxHash coins c) = c"
    by (simp add: r stored_rejected)
  then have "run s c [(rst, instr, ctxHash, coins)] = c"
    by simp
  with e r v gate st show ?thesis by blast
qed

text \<open>
  On the small ledger: identity A adds its proof for the proposed instruction 0 at block
  10; the same \<open>addProof\<close> on the resulting data is rejected as a duplicate, and the data
  stays as it is.
\<close>

theorem addProof_duplicate_rejected_witness:
  "verifiedInvoke testService (testTrie 10)
       (addProofInst [0, 0, 0, 0] [65] (hashDeferred (\<lambda>b. b) coinTransfer [3])) [] []
       (testData 1 100 [coinTransfer])
     = Returns (addSignature (testData 1 100 [coinTransfer]) 0 ''A'' (hashDeferred (\<lambda>b. b) coinTransfer [3]),
                [NewStateChange Update [255, 3] ''deferred'' [1] [9]], [], None) \<and>
   unat (Uint32 [0, 0, 0, 0])
     < length (Instructions (ProposedTransaction
         (addSignature (testData 1 100 [coinTransfer]) 0 ''A'' (hashDeferred (\<lambda>b. b) coinTransfer [3])))) \<and>
   (\<exists>storedIdentity \<in> set (SignerIdentities (Instructions (ProposedTransaction
         (addSignature (testData 1 100 [coinTransfer]) 0 ''A'' (hashDeferred (\<lambda>b. b) coinTransfer [3])))
           ! unat (Uint32 [0, 0, 0, 0]))).
      identity_Equal testService ''A'' storedIdentity) \<and>
   contractDeferred_VerifyInstruction testService (testTrie 11)
       (addProofInst [0, 0, 0, 0] [65] (hashDeferred (\<lambda>b. b) coinTransfer [3])) []
       (addSignature (testData 1 100 [coinTransfer]) 0 ''A'' (hashDeferred (\<lambda>b. b) coinTransfer [3]))
     = Returns (Some IdentityAlreadyStored) \<and>
   stored (addSignature (testData 1 100 [coinTransfer]) 0 ''A'' (hashDeferred (\<lambda>b. b) coinTransfer [3]))
     (verifiedInvoke testService (testTrie 11)
        (addProofInst [0, 0, 0, 0] [65] (hashDeferred (\<lambda>b. b) coinTransfer [3])) [] []
        (addSignature (testData 1 100 [coinTransfer]) 0 ''A'' (hashDeferred (\<lambda>b. b) coinTransfer [3])))
     = addSignature (testData 1 100 [coinTransfer]) 0 ''A'' (hashDeferred (\<lambda>b. b) coinTransfer [3])"
proof -
  let ?h = "hashDeferred (\<lambda>b. b) coinTransfer [3]"
  let ?c = "addSignature (testData 1 100 [coinTransfer]) 0 ''A'' ?h"
  let ?i = "addProofInst [0, 0, 0, 0] [65] ?h"
  let ?args = "[\<lparr>Name = ''identity'', Value = [65]\<rparr>, \<lparr>Name = ''signature'', Value = ?h\<rparr>,
               \<lparr>Name = ''index'', Value = [0, 0, 0, 0]\<rparr>]"
  have s1: "Search ?args ''identity'' = Some [65]" by simp
  have s2: "Search ?args ''index'' = Some [0, 0, 0, 0]" by simp
  have s3: "4 \<le> length [0 :: byte, 0, 0, 0]" by simp
  have rng: "unat (Uint32 [0, 0, 0, 0]) < length (Instructions (ProposedTransaction ?c))"
    by (simp add: fixture_Uint32_0 addSignature_def Let_def testData_def)
  have dup: "\<exists>storedIdentity \<in> set (SignerIdentities
                (Instructions (ProposedTransaction ?c) ! unat (Uint32 [0, 0, 0, 0]))).
              identity_Equal testService ''A'' storedIdentity"
    by (simp add: fixture_Uint32_0 addSignature_def Let_def testData_def coinTransfer_def testService_def)
  have g: "BasicVerifyInstruction testService (testTrie 11) ?i [] = None \<and> 1 \<le> NumExecution ?c
            \<and> word_of_int (GetIndex (testTrie 11)) \<le> ExpireBlockIndex ?c"
    by (simp add: fixture_BasicVerify addSignature_def Let_def testData_def testTrie_def)
  note t = addProof_duplicate_rejected[OF fixture_addProof_args s1 fixture_decodeIdentity s2 s3 rng dup,
      of "testTrie 11" "[]" "[]"]
  from t g fixture_addProof_succeeds[of "[]"] rng dup show ?thesis
    by blast
qed


text \<open>
  The claim as stated fails on an instance that has expired: at block 101, past the expiry
  index 100, the repeated \<open>addProof\<close> of identity A is rejected with the expiry error,
  not with the duplicate-proof error.
\<close>

theorem addProof_duplicate_counterexample:
  "decodeIdentity testService [65] = Some ''A'' \<and>
   unat (Uint32 [0, 0, 0, 0]) = 0 \<and>
   SignerIdentities (Instructions (ProposedTransaction
       (addSignature (testData 1 100 [coinTransfer]) 0 ''A'' (hashDeferred (\<lambda>b. b) coinTransfer [3]))) ! 0)
     = [''A''] \<and>
   identity_Equal testService ''A'' ''A'' \<and>
   contractDeferred_VerifyInstruction testService (testTrie 101)
       (addProofInst [0, 0, 0, 0] [65] (hashDeferred (\<lambda>b. b) coinTransfer [3])) []
       (addSignature (testData 1 100 [coinTransfer]) 0 ''A'' (hashDeferred (\<lambda>b. b) coinTransfer [3]))
     = Returns (Some (BlockIndexTooHigh 101 100)) \<and>
   contractDeferred_VerifyInstruction testService (testTrie 101)
       (addProofInst [0, 0, 0, 0] [65] (hashDeferred (\<lambda>b. b) coinTransfer [3])) []
       (addSignature (testData 1 100 [coinTransfer]) 0 ''A'' (hashDeferred (\<lambda>b. b) coinTransfer [3]))
     \<noteq> Returns (Some IdentityAlreadyStored)"
proof -
  let ?h = "hashDeferred (\<lambda>b. b) coinTransfer [3]"
  let ?c = "addSignature (testData 1 100 [coinTransfer]) 0 ''A'' ?h"
  have g: "invokeGate (testTrie 101) ?c = Some (BlockIndexTooHigh 101 100)"
    by (simp add: invokeGate_cases addSignature_def Let_def testData_def testTrie_def)
  have ids: "SignerIdentities (Instructions (ProposedTransaction ?c) ! 0) = [''A'']"
    by (simp add: addSignature_def Let_def testData_def coinTransfer_def)
  have eq: "identity_Equal testService ''A'' ''A''"
    by (simp add: testService_def)
  have v: "contractDeferred_VerifyInstruction testService (testTrie 101)
             (addProofInst [0, 0, 0, 0] [65] ?h) [] ?c = Returns (Some (BlockIndexTooHigh 101 100))"
    by (simp add: VerifyInstruction_Invoke[OF fixture_addProof_args] fixture_BasicVerify g)
  show ?thesis
    using ids eq by (simp add: v fixture_decodeIdentity fixture_Uint32_0)
qed

subsection \<open>The execution counter along verified operations\<close>

lemma NumExecution_addSignature:
  "NumExecution (addSignature c index identity signature) = NumExecution c"
  by (simp add: addSignature_def Let_def)

lemma addProof_success:
  "addProof s inst coins darcID args c = Returns (c', sc, cout, None) \<Longrightarrow>
     \<exists>index identity signature. c' = addSignature c index identity signature"
  by (auto simp: addProof_def Let_def split: option.splits if_splits)

lemma Invoke_success_NumExecution:
  assumes "contractDeferred_Invoke s rst inst coins c = Returns (c', sc, cout, None)"
  shows "\<exists>cid command args. body inst = Invoke cid command args \<and>
           ((command = ''addProof'' \<and> NumExecution c' = NumExecution c) \<or>
            (command = ''execProposedTx'' \<and> NumExecution c' = NumExecution c - 1))"
proof (cases "body inst")
  case (Invoke cid command args)
  from assms obtain v ver cid' darcID where
    gv: "GetValues rst (InstanceID inst) = Inr (v, ver, cid', darcID)"
    by (auto simp: contractDeferred_Invoke_def split: sum.splits)
  consider (a) "command = ''addProof''" | (e) "command = ''execProposedTx''"
    | (o) "command \<noteq> ''addProof''" "command \<noteq> ''execProposedTx''"
    by blast
  then show ?thesis
  proof cases
    case a
    with assms gv Invoke have "addProof s inst coins darcID args c = Returns (c', sc, cout, None)"
      by (simp add: contractDeferred_Invoke_def)
    from addProof_success[OF this] Invoke a show ?thesis
      by (auto simp: NumExecution_addSignature)
  next
    case e
    from execProposedTx_returns[OF _ assms, of cid args] Invoke e show ?thesis
      by auto
  next
    case o
    with assms gv Invoke show ?thesis
      by (simp add: contractDeferred_Invoke_def)
  qed
next
  case (Spawn cid args)
  with assms show ?thesis
    by (auto simp: contractDeferred_Invoke_def split: sum.splits)
next
  case (Delete cid)
  with assms show ?thesis
    by (auto simp: contractDeferred_Invoke_def split: sum.splits)
qed

text \<open>
  What a successful Invoke hands to the ledger last is the Update of the instance itself,
  and its bytes encode the receiver's data after the call.
\<close>

lemma Invoke_success_Update:
  assumes "contractDeferred_Invoke s rst inst coins c = Returns (c', sc, cout, None)"
  shows "\<exists>nested buf v ver cid' darcID.
           GetValues rst (InstanceID inst) = Inr (v, ver, cid', darcID) \<and>
           encodeDeferredData s c' = Some buf \<and>
           sc = nested @ [NewStateChange Update (InstanceID inst) ContractDeferredID buf darcID]"
proof -
  from Invoke_success_NumExecution[OF assms] obtain cid command args where
    b: "body inst = Invoke cid command args" and
    cmd: "command = ''addProof'' \<or> command = ''execProposedTx''"
    by blast
  from assms obtain v ver cid' darcID where
    gv: "GetValues rst (InstanceID inst) = Inr (v, ver, cid', darcID)"
    by (auto simp: contractDeferred_Invoke_def split: sum.splits)
  from cmd show ?thesis
  proof
    assume a: "command = ''addProof''"
    with assms gv b have "addProof s inst coins darcID args c = Returns (c', sc, cout, None)"
      by (simp add: contractDeferred_Invoke_def)
    then have "\<exists>buf. encodeDeferredData s c' = Some buf \<and>
                 sc = [] @ [NewStateChange Update (InstanceID inst) ContractDeferredID buf darcID]"
      by (auto simp: addProof_def Let_def split: option.splits if_splits)
    with gv show ?thesis by blast
  next
    assume "command = ''execProposedTx''"
    with b have "body inst = Invoke cid ''execProposedTx'' args" by simp
    from execProposedTx_returns[OF this assms] show ?thesis by blast
  qed
qed

lemma verifiedInvoke_success:
  assumes "verifiedInvoke s rst inst ctxHash coins c = Returns (c', sc, cout, None)"
  shows "contractDeferred_VerifyInstruction s rst inst ctxHash c = Returns None \<and>
         contractDeferred_Invoke s rst inst coins c = Returns (c', sc, cout, None)"
  using assms by (auto simp: verifiedInvoke_def split: outcome.splits option.splits)

lemma VerifyInstruction_accepts_Invoke:
  assumes "contractDeferred_VerifyInstruction s rst inst ctxHash c = Returns None"
      and "body inst = Invoke cid command args"
  shows "1 \<le> NumExecution c \<and> word_of_int (GetIndex rst) \<le> ExpireBlockIndex c"
proof -
  from assms have "invokeGate rst c = None"
    by (auto simp: VerifyInstruction_Invoke[OF assms(2)] split: option.splits)
  then show ?thesis by (simp add: invokeGate_None)
qed

lemma verifiedInvoke_counter:
  assumes "verifiedInvoke s rst inst ctxHash coins c = Returns (c', sc, cout, None)"
  shows "1 \<le> NumExecution c"
    and "NumExecution c' = (if Command (body inst) = ''execProposedTx'' then NumExecution c - 1
                            else NumExecution c)"
    and "NumExecution c' \<le> NumExecution c"
proof -
  from verifiedInvoke_success[OF assms] have
    v: "contractDeferred_VerifyInstruction s rst inst ctxHash c = Returns None" and
    i: "contractDeferred_Invoke s rst inst coins c = Returns (c', sc, cout, None)"
    by simp_all
  from Invoke_success_NumExecution[OF i] obtain cid command args where
    b: "body inst = Invoke cid command args" and
    n: "(command = ''addProof'' \<and> NumExecution c' = NumExecution c) \<or>
        (command = ''execProposedTx'' \<and> NumExecution c' = NumExecution c - 1)"
    by blast
  from VerifyInstruction_accepts_Invoke[OF v b] show one: "1 \<le> NumExecution c"
    by simp
  then have "NumExecution c \<noteq> 0"
    by (simp add: one_le_word_iff)
  then have le: "NumExecution c - 1 \<le> NumExecution c"
    by (simp add: word_le_nat_alt unat_minus_one)
  from b n show "NumExecution c' = (if Command (body inst) = ''execProposedTx'' then NumExecution c - 1
                            else NumExecution c)"
    by auto
  from n le show "NumExecution c' \<le> NumExecution c"
    by auto
qed

lemma stored_counter:
  "NumExecution (stored c (verifiedInvoke s rst inst ctxHash coins c)) \<le> NumExecution c"
proof (cases "verifiedInvoke s rst inst ctxHash coins c")
  case (Panics p)
  then show ?thesis by (simp add: stored_def)
next
  case (Returns r)
  obtain c' sc cout err where r: "r = (c', sc, cout, err)"
    by (cases r) auto
  show ?thesis
  proof (cases err)
    case None
    with Returns r have "verifiedInvoke s rst inst ctxHash coins c = Returns (c', sc, cout, None)"
      by simp
    from verifiedInvoke_counter(3)[OF this] Returns r None show ?thesis
      by (simp add: stored_def)
  next
    case (Some e)
    with Returns r show ?thesis by (simp add: stored_def)
  qed
qed

lemma run_counter: "NumExecution (run s c reqs) \<le> NumExecution c"
proof (induction reqs arbitrary: c)
  case Nil
  show ?case by simp
next
  case (Cons r reqs)
  obtain rst inst ctxHash coins where r: "r = (rst, inst, ctxHash, coins)"
    by (cases r) auto
  have "NumExecution (run s (stored c (verifiedInvoke s rst inst ctxHash coins c)) reqs)
          \<le> NumExecution (stored c (verifiedInvoke s rst inst ctxHash coins c))"
    by (rule Cons.IH)
  also have "\<dots> \<le> NumExecution c"
    by (rule stored_counter)
  finally show ?case by (simp add: r)
qed

lemma exhausted_stays:
  assumes "NumExecution c = 0"
  shows "stored c (verifiedInvoke s rst inst ctxHash coins c) = c"
proof (cases "verifiedInvoke s rst inst ctxHash coins c")
  case (Panics p)
  then show ?thesis by (simp add: stored_def)
next
  case (Returns r)
  obtain c' sc cout err where r: "r = (c', sc, cout, err)"
    by (cases r) auto
  show ?thesis
  proof (cases err)
    case None
    with Returns r have "verifiedInvoke s rst inst ctxHash coins c = Returns (c', sc, cout, None)"
      by simp
    from verifiedInvoke_counter(1)[OF this] assms show ?thesis
      by simp
  next
    case (Some e)
    with Returns r show ?thesis by (simp add: stored_def)
  qed
qed

lemma exhausted_run:
  "NumExecution c = 0 \<Longrightarrow> run s c reqs = c"
proof (induction reqs)
  case Nil
  show ?case by simp
next
  case (Cons r reqs)
  obtain rst inst ctxHash coins where r: "r = (rst, inst, ctxHash, coins)"
    by (cases r) auto
  with Cons exhausted_stays[OF Cons.prems, of s rst inst ctxHash coins] show ?case
    by simp
qed

lemma exhausted_rejects:
  assumes "NumExecution c = 0" and "body inst = Invoke cid command args"
  shows "(\<exists>e. verifiedInvoke s rst inst ctxHash coins c = Returns (c, [], [], Some e)) \<and>
         (BasicVerifyInstruction s rst inst ctxHash = None \<longrightarrow>
            verifiedInvoke s rst inst ctxHash coins c = Returns (c, [], [], Some MaxExecutionsReached)) \<and>
         (\<forall>e. BasicVerifyInstruction s rst inst ctxHash = Some e \<longrightarrow>
            verifiedInvoke s rst inst ctxHash coins c = Returns (c, [], [], Some e))"
proof -
  have g: "invokeGate rst c = Some MaxExecutionsReached"
    using assms(1) by (simp add: invokeGate_cases)
  have "contractDeferred_VerifyInstruction s rst inst ctxHash c =
          (case BasicVerifyInstruction s rst inst ctxHash of
             Some err \<Rightarrow> Returns (Some err) | None \<Rightarrow> Returns (Some MaxExecutionsReached))"
    by (simp add: VerifyInstruction_Invoke[OF assms(2)] g split: option.splits)
  then show ?thesis
    by (cases "BasicVerifyInstruction s rst inst ctxHash") (simp_all add: verifiedInvoke_def)
qed

text \<open>
  A loop whose every pass goes through, pass \<open>j\<close> finding the coins \<open>f j\<close> in the slice and
  leaving \<open>f (Suc j)\<close>, ends without error.
\<close>

lemma execLoop_all_succeed:
  assumes "f 0 = coins"
      and "\<forall>j<length ps. \<exists>scs.
             execInstruction s rst (f j) hashes (i + j) (ps ! j) = Returns (Inr (f (Suc j), scs))"
  shows "\<exists>sc'. execLoop s rst coins hashes i ps ids sc
                 = Returns (Inr (ids @ map (\<lambda>p. DeriveID s p '''') ps, sc', f (length ps)))"
  using assms
proof (induction ps arbitrary: i ids sc coins f)
  case Nil
  then show ?case by simp
next
  case (Cons p ps)
  from Cons.prems(2)[rule_format, of 0] Cons.prems(1) obtain scs where
    step: "execInstruction s rst coins hashes i p = Returns (Inr (f (Suc 0), scs))"
    by auto
  have tail: "\<forall>j<length ps. \<exists>scs.
      execInstruction s rst ((f \<circ> Suc) j) hashes (Suc i + j) (ps ! j) = Returns (Inr ((f \<circ> Suc) (Suc j), scs))"
  proof (intro allI impI)
    fix j assume "j < length ps"
    with Cons.prems(2)[rule_format, of "Suc j"]
    show "\<exists>scs. execInstruction s rst ((f \<circ> Suc) j) hashes (Suc i + j) (ps ! j)
                  = Returns (Inr ((f \<circ> Suc) (Suc j), scs))"
      by simp
  qed
  have "(f \<circ> Suc) 0 = f (Suc 0)"
    by simp
  from Cons.IH[OF this tail, of "ids @ [DeriveID s p '''']" "sc @ scs"] step show ?case
    by simp
qed

lemma fixture_verify_exec:
  "contractDeferred_VerifyInstruction testService (testTrie 20) execInst [] (testData 1 100 [coinTransfer])
     = Returns None"
proof -
  have g: "invokeGate (testTrie 20) (testData 1 100 [coinTransfer]) = None"
    by (simp add: invokeGate_cases testData_def testTrie_def)
  show ?thesis
    by (simp add: VerifyInstruction_Invoke[OF fixture_execInst_body] fixture_BasicVerify g)
qed

text \<open>
  C9. Along every sequence of verified operations on a deferred instance, each Invoke
  gated by VerifyInstruction, the stored NumExecution never increases. A verified Invoke
  that succeeds found NumExecution at least 1; \<open>addProof\<close> leaves it as it is, and
  \<open>execProposedTx\<close> takes exactly one off without wrapping around.
\<close>

theorem NumExecution_never_increases:
  "NumExecution (run s c reqs) \<le> NumExecution c \<and>
   (verifiedInvoke s rst inst ctxHash coins c = Returns (c', sc, cout, None) \<longrightarrow>
      1 \<le> NumExecution c \<and>
      NumExecution c' \<le> NumExecution c \<and>
      unat (NumExecution c') =
        (if Command (body inst) = ''execProposedTx'' then unat (NumExecution c) - 1
         else unat (NumExecution c)))"
proof (intro conjI impI)
  show "NumExecution (run s c reqs) \<le> NumExecution c"
    by (rule run_counter)
next
  assume ok: "verifiedInvoke s rst inst ctxHash coins c = Returns (c', sc, cout, None)"
  show one: "1 \<le> NumExecution c"
    by (rule verifiedInvoke_counter(1)[OF ok])
  show "NumExecution c' \<le> NumExecution c"
    by (rule verifiedInvoke_counter(3)[OF ok])
  from one have "NumExecution c \<noteq> 0"
    by (simp add: one_le_word_iff)
  then have "unat (NumExecution c - 1) = unat (NumExecution c) - 1"
    by (simp add: unat_minus_one)
  with verifiedInvoke_counter(2)[OF ok]
  show "unat (NumExecution c') =
        (if Command (body inst) = ''execProposedTx'' then unat (NumExecution c) - 1
         else unat (NumExecution c))"
    by simp
qed

text \<open>
  On the small ledger: the first \<open>execProposedTx\<close> takes the counter from 1 to 0, the
  second is rejected, and the counter stays 0.
\<close>

theorem NumExecution_never_increases_witness:
  "verifiedInvoke testService (testTrie 20) execInst [] [] (testData 1 100 [coinTransfer])
     = Returns ((testData 1 100 [coinTransfer])\<lparr>ExecResult := [[255, 7]], NumExecution := 0\<rparr>,
                [NewStateChange Update [7] ''coin'' [1] [9],
                 NewStateChange Update [255, 3] ''deferred'' [0] [9]],
                [], None) \<and>
   Command (body execInst) = ''execProposedTx'' \<and>
   unat (NumExecution (testData 1 100 [coinTransfer])) = 1 \<and>
   unat (NumExecution ((testData 1 100 [coinTransfer])\<lparr>ExecResult := [[255, 7]], NumExecution := 0\<rparr>)) = 0 \<and>
   run testService (testData 1 100 [coinTransfer])
       [(testTrie 20, execInst, [], []), (testTrie 21, execInst, [], [])]
     = (testData 1 100 [coinTransfer])\<lparr>ExecResult := [[255, 7]], NumExecution := 0\<rparr> \<and>
   NumExecution (run testService (testData 1 100 [coinTransfer])
       [(testTrie 20, execInst, [], []), (testTrie 21, execInst, [], [])])
     \<le> NumExecution (testData 1 100 [coinTransfer])"
proof -
  let ?c = "testData 1 100 [coinTransfer]"
  let ?c1 = "?c\<lparr>ExecResult := [[255, 7]], NumExecution := 0\<rparr>"
  have v1: "verifiedInvoke testService (testTrie 20) execInst [] [] ?c
     = Returns (?c1, [NewStateChange Update [7] ''coin'' [1] [9],
                      NewStateChange Update [255, 3] ''deferred'' [0] [9]], [], None)"
    by (simp add: verifiedInvoke_def fixture_verify_exec fixture_exec_succeeds)
  have z: "NumExecution ?c1 = 0" by simp
  have r: "run testService ?c [(testTrie 20, execInst, [], []), (testTrie 21, execInst, [], [])] = ?c1"
    using exhausted_stays[OF z, of testService "testTrie 21" execInst "[]" "[]"]
    by (simp add: v1 stored_def)
  have cmd: "Command (body execInst) = ''execProposedTx''"
    by (simp add: execInst_def)
  have u: "unat (NumExecution ?c) = 1" "unat (NumExecution ?c1) = 0"
    by (simp_all add: testData_def)
  note t = NumExecution_never_increases[of testService ?c
      "[(testTrie 20, execInst, [], []), (testTrie 21, execInst, [], [])]"
      "testTrie 20" execInst "[]" "[]" ?c1
      "[NewStateChange Update [7] ''coin'' [1] [9], NewStateChange Update [255, 3] ''deferred'' [0] [9]]"
      "[]"]
  from t v1 cmd u r show ?thesis by blast
qed

text \<open>
  C7 (as the code has it). A deferred instance whose NumExecution is 1 (as after a Spawn
  with that value): a first \<open>execProposedTx\<close> succeeds and stores NumExecution 0 when
  the base authorization accepts it, the block index is not above ExpireBlockIndex, the
  instance is found in the trie, its proposed instructions all verify and execute (each
  target contract is built, accepts the instruction against its stored hash, and its
  Spawn, Invoke or Delete returns without error on the coins the calls before it left in
  the slice), and the new data can be encoded. On the resulting data every later
  Invoke, whatever its command, is rejected and returns no state change: with the error
  of the base authorization if that fails, and with the execution-ceiling error
  otherwise; no sequence of further operations changes the data, so the instance is
  inert for Invoke.
\<close>

theorem single_execution_then_inert:
  fixes c :: deferredData and s :: Service
  defines "instrs \<equiv> Instructions (ProposedTransaction c)"
  defines "c1 \<equiv> c\<lparr>ExecResult := map (\<lambda>p. DeriveID s p '''') instrs, NumExecution := 0\<rparr>"
  assumes one: "NumExecution c = 1"
      and exec: "body inst = Invoke cid ''execProposedTx'' args"
      and auth: "BasicVerifyInstruction s rst inst ctxHash = None"
      and live: "word_of_int (GetIndex rst) \<le> ExpireBlockIndex c"
      and gv: "GetValues rst (InstanceID inst) = Inr (v, ver, cid', darcID)"
      and first: "slices ! 0 = coins"
      and all: "\<forall>i<length instrs. \<exists>fn rootBuf contract written scs cout'.
                  GetContractConstructor (registry s) (targetContractID (body (instrs ! i))) = Some fn \<and>
                  encodeInstruction s (instrs ! i) = Some rootBuf \<and>
                  fn rootBuf = Inr contract \<and>
                  i < length (InstructionHashes c) \<and>
                  VerifyDeferredInstruction contract rst (instrs ! i) (InstructionHashes c ! i) = None \<and>
                  targetCall contract rst (instrs ! i) (slices ! i) = (written, scs, cout', None) \<and>
                  slices ! Suc i = leftInSlice (slices ! i) written"
      and enc: "encodeDeferredData s c1 = Some buf"
  shows "(\<exists>sc. verifiedInvoke s rst inst ctxHash coins c
                 = Returns (c1, sc, slices ! length instrs, None)) \<and>
         stored c (verifiedInvoke s rst inst ctxHash coins c) = c1 \<and>
         NumExecution c1 = 0 \<and>
         (\<forall>rst' inst' ctxHash' coins' cid2 command2 args2.
            body inst' = Invoke cid2 command2 args2 \<longrightarrow>
              (\<exists>e. verifiedInvoke s rst' inst' ctxHash' coins' c1 = Returns (c1, [], [], Some e)) \<and>
              (BasicVerifyInstruction s rst' inst' ctxHash' = None \<longrightarrow>
                 verifiedInvoke s rst' inst' ctxHash' coins' c1
                   = Returns (c1, [], [], Some MaxExecutionsReached)) \<and>
              (\<forall>e. BasicVerifyInstruction s rst' inst' ctxHash' = Some e \<longrightarrow>
                 verifiedInvoke s rst' inst' ctxHash' coins' c1 = Returns (c1, [], [], Some e))) \<and>
         (\<forall>reqs. run s c1 reqs = c1)"
proof -
  have g: "invokeGate rst c = None"
    using one live by (simp add: invokeGate_None)
  have vf: "contractDeferred_VerifyInstruction s rst inst ctxHash c = Returns None"
    by (simp add: VerifyInstruction_Invoke[OF exec] auth g)
  have passes: "\<forall>j<length instrs. \<exists>scs.
      execInstruction s rst (slices ! j) (InstructionHashes c) (0 + j) (instrs ! j)
        = Returns (Inr (slices ! Suc j, scs))"
  proof (intro allI impI)
    fix j assume "j < length instrs"
    with all obtain fn rootBuf contract written scs cout' where
      "GetContractConstructor (registry s) (targetContractID (body (instrs ! j))) = Some fn"
      "encodeInstruction s (instrs ! j) = Some rootBuf"
      "fn rootBuf = Inr contract"
      "j < length (InstructionHashes c)"
      "VerifyDeferredInstruction contract rst (instrs ! j) (InstructionHashes c ! j) = None"
      "targetCall contract rst (instrs ! j) (slices ! j) = (written, scs, cout', None)"
      "slices ! Suc j = leftInSlice (slices ! j) written"
      by blast
    then have "execInstruction s rst (slices ! j) (InstructionHashes c) j (instrs ! j)
                 = Returns (Inr (slices ! Suc j, scs))"
      unfolding execInstruction_Inr by blast
    then show "\<exists>scs. execInstruction s rst (slices ! j) (InstructionHashes c) (0 + j) (instrs ! j)
                 = Returns (Inr (slices ! Suc j, scs))"
      by auto
  qed
  from execLoop_all_succeed[where f = "\<lambda>j. slices ! j", OF first passes, of "[]" "[]"] obtain nested where
    loop: "execLoop s rst coins (InstructionHashes c) 0 instrs [] []
             = Returns (Inr (map (\<lambda>p. DeriveID s p '''') instrs, nested, slices ! length instrs))"
    by auto
  have c1: "c\<lparr>ExecResult := map (\<lambda>p. DeriveID s p '''') instrs, NumExecution := NumExecution c - 1\<rparr> = c1"
    by (simp add: c1_def one)
  have i: "contractDeferred_Invoke s rst inst coins c
             = Returns (c1, nested @ [NewStateChange Update (InstanceID inst) ContractDeferredID buf darcID],
                        slices ! length instrs, None)"
    using loop[unfolded instrs_def] c1[unfolded instrs_def] enc
    by (simp add: contractDeferred_Invoke_def gv exec execProposedTx_def instrs_def)
  then have vi: "verifiedInvoke s rst inst ctxHash coins c
             = Returns (c1, nested @ [NewStateChange Update (InstanceID inst) ContractDeferredID buf darcID],
                        slices ! length instrs, None)"
    by (simp add: verifiedInvoke_def vf)
  have z: "NumExecution c1 = 0"
    by (simp add: c1_def)
  have st: "stored c (verifiedInvoke s rst inst ctxHash coins c) = c1"
    by (simp add: vi stored_def)
  from vi have firstExec: "\<exists>sc. verifiedInvoke s rst inst ctxHash coins c
                 = Returns (c1, sc, slices ! length instrs, None)"
    by blast
  have later: "\<forall>rst' inst' ctxHash' coins' cid2 command2 args2.
            body inst' = Invoke cid2 command2 args2 \<longrightarrow>
              (\<exists>e. verifiedInvoke s rst' inst' ctxHash' coins' c1 = Returns (c1, [], [], Some e)) \<and>
              (BasicVerifyInstruction s rst' inst' ctxHash' = None \<longrightarrow>
                 verifiedInvoke s rst' inst' ctxHash' coins' c1
                   = Returns (c1, [], [], Some MaxExecutionsReached)) \<and>
              (\<forall>e. BasicVerifyInstruction s rst' inst' ctxHash' = Some e \<longrightarrow>
                 verifiedInvoke s rst' inst' ctxHash' coins' c1 = Returns (c1, [], [], Some e))"
    by (intro allI impI) (rule exhausted_rejects[OF z])
  have inert: "\<forall>reqs. run s c1 reqs = c1"
    by (intro allI) (rule exhausted_run[OF z])
  show ?thesis
    by (intro conjI firstExec st z later inert)
qed

text \<open>
  On the small ledger: the data written by the Spawn with NumExecution 1 is executed at
  block 20; the second \<open>execProposedTx\<close>, at block 21, is rejected with the
  execution-ceiling error, and so is an \<open>addProof\<close>.
\<close>

theorem single_execution_then_inert_witness:
  "spawnData testService spawnInst (spawn_Args (body spawnInst)) = Inr (testData 1 100 [coinTransfer]) \<and>
   NumExecution (testData 1 100 [coinTransfer]) = 1 \<and>
   body execInst = Invoke ''deferred'' ''execProposedTx'' [] \<and>
   BasicVerifyInstruction testService (testTrie 20) execInst [] = None \<and>
   word_of_int (GetIndex (testTrie 20)) \<le> ExpireBlockIndex (testData 1 100 [coinTransfer]) \<and>
   GetValues (testTrie 20) (InstanceID execInst) = Inr ([], 0, ''deferred'', [9]) \<and>
   GetContractConstructor (registry testService) (targetContractID (body coinTransfer))
     = Some (\<lambda>buf. Inr coinContract) \<and>
   VerifyDeferredInstruction coinContract (testTrie 20) coinTransfer
       (InstructionHashes (testData 1 100 [coinTransfer]) ! 0) = None \<and>
   targetCall coinContract (testTrie 20) coinTransfer [\<lparr>coin_Name = [1], coin_Value = 5\<rparr>]
     = ([\<lparr>coin_Name = [1], coin_Value = 5\<rparr>], [NewStateChange Update [7] ''coin'' [1] [9]], [], None) \<and>
   (\<exists>sc. verifiedInvoke testService (testTrie 20) execInst [] [\<lparr>coin_Name = [1], coin_Value = 5\<rparr>]
           (testData 1 100 [coinTransfer])
      = Returns ((testData 1 100 [coinTransfer])\<lparr>ExecResult := [[255, 7]], NumExecution := 0\<rparr>,
                 sc, [\<lparr>coin_Name = [1], coin_Value = 5\<rparr>], None)) \<and>
   verifiedInvoke testService (testTrie 21) execInst [] []
       ((testData 1 100 [coinTransfer])\<lparr>ExecResult := [[255, 7]], NumExecution := 0\<rparr>)
     = Returns ((testData 1 100 [coinTransfer])\<lparr>ExecResult := [[255, 7]], NumExecution := 0\<rparr>,
                [], [], Some MaxExecutionsReached) \<and>
   run testService ((testData 1 100 [coinTransfer])\<lparr>ExecResult := [[255, 7]], NumExecution := 0\<rparr>)
       [(testTrie 21, execInst, [], []),
        (testTrie 22, addProofInst [0, 0, 0, 0] [65] [2], [], [])]
     = (testData 1 100 [coinTransfer])\<lparr>ExecResult := [[255, 7]], NumExecution := 0\<rparr>"
proof -
  let ?coins = "[\<lparr>coin_Name = [1], coin_Value = (5 :: 64 word)\<rparr>]"
  let ?c = "testData 1 100 [coinTransfer]"
  let ?c1 = "?c\<lparr>ExecResult := [[255, 7]], NumExecution := 0\<rparr>"
  have one: "NumExecution ?c = 1"
    by (simp add: testData_def)
  have auth: "BasicVerifyInstruction testService (testTrie 20) execInst [] = None"
    by (rule fixture_BasicVerify)
  have live: "word_of_int (GetIndex (testTrie 20)) \<le> ExpireBlockIndex ?c"
    by (simp add: testData_def testTrie_def)
  have gv: "GetValues (testTrie 20) (InstanceID execInst) = Inr ([], 0, ''deferred'', [9])"
    by (rule fixture_GetValues)
  have reg: "GetContractConstructor (registry testService) (targetContractID (body coinTransfer))
               = Some (\<lambda>buf. Inr coinContract)"
    by (simp add: targetContractID_def coinTransfer_def fixture_registry_coin)
  have ver: "VerifyDeferredInstruction coinContract (testTrie 20) coinTransfer (InstructionHashes ?c ! 0) = None"
    by (simp add: coinContract_def)
  have call: "targetCall coinContract (testTrie 20) coinTransfer ?coins
                = (?coins, [NewStateChange Update [7] ''coin'' [1] [9]], [], None)"
    by (simp add: targetCall_def coinTransfer_def coinContract_def)
  have first: "[?coins, ?coins] ! 0 = ?coins"
    by simp
  have all: "\<forall>i<length (Instructions (ProposedTransaction ?c)). \<exists>fn rootBuf contract written scs cout'.
               GetContractConstructor (registry testService)
                   (targetContractID (body (Instructions (ProposedTransaction ?c) ! i))) = Some fn \<and>
               encodeInstruction testService (Instructions (ProposedTransaction ?c) ! i) = Some rootBuf \<and>
               fn rootBuf = Inr contract \<and>
               i < length (InstructionHashes ?c) \<and>
               VerifyDeferredInstruction contract (testTrie 20) (Instructions (ProposedTransaction ?c) ! i)
                   (InstructionHashes ?c ! i) = None \<and>
               targetCall contract (testTrie 20) (Instructions (ProposedTransaction ?c) ! i)
                   ([?coins, ?coins] ! i) = (written, scs, cout', None) \<and>
               [?coins, ?coins] ! Suc i = leftInSlice ([?coins, ?coins] ! i) written"
    using reg ver call
    by (simp add: fixture_instrs fixture_hashes_length fixture_encodeInstruction leftInSlice_def)
  have ids: "map (\<lambda>p. DeriveID testService p '''') (Instructions (ProposedTransaction ?c)) = [[255, 7]]"
    by (simp add: testData_def fixture_DeriveID coinTransfer_def)
  have enc: "encodeDeferredData testService
               (?c\<lparr>ExecResult := map (\<lambda>p. DeriveID testService p '''') (Instructions (ProposedTransaction ?c)),
                   NumExecution := 0\<rparr>) = Some [0]"
    by (simp add: fixture_encodeDeferredData)
  have n1: "[?coins, ?coins] ! length (Instructions (ProposedTransaction ?c)) = ?coins"
    by (simp add: fixture_instrs)
  note t = single_execution_then_inert[OF one fixture_execInst_body auth live gv first all enc,
      unfolded ids n1]
  note firstExec = t[THEN conjunct1]
  note later = t[THEN conjunct2, THEN conjunct2, THEN conjunct2, THEN conjunct1, rule_format,
      OF fixture_execInst_body]
  note second = later[THEN conjunct2, THEN conjunct1, rule_format, OF fixture_BasicVerify,
      of "testTrie 21" "[]" "[]"]
  note inert = t[THEN conjunct2, THEN conjunct2, THEN conjunct2, THEN conjunct2, rule_format,
      of "[(testTrie 21, execInst, [], []), (testTrie 22, addProofInst [0, 0, 0, 0] [65] [2], [], [])]"]
  show ?thesis
    by (intro conjI fixture_spawnData one fixture_execInst_body auth live gv reg ver call
        firstExec second inert)
qed

text \<open>
  The claim as stated fails on an instance that has expired: the data written by the
  Spawn with NumExecution 1 and the expiry index 100 holds one proposed instruction
  that verifies and executes, and the body of Invoke alone would execute it; at block
  101 the first \<open>execProposedTx\<close> is rejected with the expiry error, and the data
  stays as it was.
\<close>

theorem single_execution_then_inert_counterexample:
  "spawnData testService spawnInst (spawn_Args (body spawnInst)) = Inr (testData 1 100 [coinTransfer]) \<and>
   NumExecution (testData 1 100 [coinTransfer]) = 1 \<and>
   body execInst = Invoke ''deferred'' ''execProposedTx'' [] \<and>
   execInstruction testService (testTrie 101) [] (InstructionHashes (testData 1 100 [coinTransfer])) 0
       (Instructions (ProposedTransaction (testData 1 100 [coinTransfer])) ! 0)
     = Returns (Inr ([], [NewStateChange Update [7] ''coin'' [1] [9]])) \<and>
   contractDeferred_Invoke testService (testTrie 101) execInst [] (testData 1 100 [coinTransfer])
     = Returns ((testData 1 100 [coinTransfer])\<lparr>ExecResult := [[255, 7]], NumExecution := 0\<rparr>,
                [NewStateChange Update [7] ''coin'' [1] [9],
                 NewStateChange Update [255, 3] ''deferred'' [0] [9]],
                [], None) \<and>
   verifiedInvoke testService (testTrie 101) execInst [] [] (testData 1 100 [coinTransfer])
     = Returns (testData 1 100 [coinTransfer], [], [], Some (BlockIndexTooHigh 101 100)) \<and>
   stored (testData 1 100 [coinTransfer])
       (verifiedInvoke testService (testTrie 101) execInst [] [] (testData 1 100 [coinTransfer]))
     = testData 1 100 [coinTransfer]"
proof -
  let ?c = "testData 1 100 [coinTransfer]"
  have one: "NumExecution ?c = 1"
    by (simp add: testData_def)
  have e0: "execInstruction testService (testTrie 101) [] (InstructionHashes ?c) 0
              (Instructions (ProposedTransaction ?c) ! 0)
            = Returns (Inr ([], [NewStateChange Update [7] ''coin'' [1] [9]]))"
    by (simp add: fixture_instrs fixture_hashes_length fixture_exec_coinTransfer)
  have g: "invokeGate (testTrie 101) ?c = Some (BlockIndexTooHigh 101 100)"
    by (simp add: invokeGate_cases testData_def testTrie_def)
  have vf: "contractDeferred_VerifyInstruction testService (testTrie 101) execInst [] ?c
             = Returns (Some (BlockIndexTooHigh 101 100))"
    by (simp add: VerifyInstruction_Invoke[OF fixture_execInst_body] fixture_BasicVerify g)
  note vi = verifiedInvoke_rejected[OF vf, of "[]"]
  have st: "stored ?c (verifiedInvoke testService (testTrie 101) execInst [] [] ?c) = ?c"
    by (simp add: vi stored_rejected)
  show ?thesis
    by (intro conjI fixture_spawnData one fixture_execInst_body e0
        fixture_exec_succeeds[of 101 "[]" 100] vi st)
qed

subsection \<open>The coins that are returned\<close>

lemma Spawn_coins:
  "contractDeferred_Spawn s rst inst coins = Returns (sc, cout, err) \<Longrightarrow>
     cout = (if err = None \<or> (\<exists>e. GetValues rst (InstanceID inst) = Inl e) then coins else [])"
  by (auto simp: contractDeferred_Spawn_def
      split: sum.splits prod.splits Body.splits option.splits)

lemma Delete_coins:
  "contractDeferred_Delete rst inst coins = Returns (sc, cout, err) \<Longrightarrow> cout = coins"
  by (auto simp: contractDeferred_Delete_def split: sum.splits prod.splits)

lemma Invoke_error_coins:
  "contractDeferred_Invoke s rst inst coins c = Returns (c', sc, cout, Some e) \<Longrightarrow>
     cout = (if (\<exists>e. GetValues rst (InstanceID inst) = Inl e) then coins else [])"
  by (auto simp: contractDeferred_Invoke_def addProof_def execProposedTx_def Let_def
      split: sum.splits prod.splits Body.splits option.splits if_splits outcome.splits)

lemma addProof_success_coins:
  assumes "contractDeferred_Invoke s rst inst coins c = Returns (c', sc, cout, None)"
      and "Command (body inst) = ''addProof''"
  shows "cout = coins"
  using assms
  by (auto simp: contractDeferred_Invoke_def addProof_def Let_def
      split: sum.splits prod.splits Body.splits option.splits if_splits)

lemma execProposedTx_body:
  assumes "contractDeferred_Invoke s rst inst coins c = Returns (c', sc, cout, None)"
      and "Command (body inst) = ''execProposedTx''"
  shows "\<exists>cid args. body inst = Invoke cid ''execProposedTx'' args"
  using assms
  by (cases "body inst") (auto simp: contractDeferred_Invoke_def split: sum.splits prod.splits)

lemma execProposedTx_slices:
  fixes c :: deferredData
  defines "instrs \<equiv> Instructions (ProposedTransaction c)"
  assumes "body inst = Invoke cid ''execProposedTx'' args"
      and "contractDeferred_Invoke s rst inst coins c = Returns (c', sc, cout, None)"
  shows "\<exists>slices. length slices = Suc (length instrs) \<and> slices ! 0 = coins \<and>
           slices ! length instrs = cout \<and>
           (\<forall>i<length instrs. \<exists>fn buf contract written scs cout'.
              GetContractConstructor (registry s) (targetContractID (body (instrs ! i))) = Some fn \<and>
              encodeInstruction s (instrs ! i) = Some buf \<and>
              fn buf = Inr contract \<and>
              targetCall contract rst (instrs ! i) (slices ! i) = (written, scs, cout', None) \<and>
              slices ! Suc i = leftInSlice (slices ! i) written)"
proof -
  from execProposedTx_returns[OF assms(2,3)] obtain ids nested where
    loop: "execLoop s rst coins (InstructionHashes c) 0 instrs [] [] = Returns (Inr (ids, nested, cout))"
    unfolding instrs_def by blast
  from execLoop_succeeds[OF loop] obtain parts slices where
    lens: "length slices = Suc (length instrs)" and
    first: "slices ! 0 = coins" and
    last: "slices ! length instrs = cout" and
    each: "\<forall>j<length instrs. execInstruction s rst (slices ! j) (InstructionHashes c) j (instrs ! j)
                               = Returns (Inr (slices ! Suc j, parts ! j))"
    by auto
  have "\<forall>i<length instrs. \<exists>fn buf contract written scs cout'.
              GetContractConstructor (registry s) (targetContractID (body (instrs ! i))) = Some fn \<and>
              encodeInstruction s (instrs ! i) = Some buf \<and>
              fn buf = Inr contract \<and>
              targetCall contract rst (instrs ! i) (slices ! i) = (written, scs, cout', None) \<and>
              slices ! Suc i = leftInSlice (slices ! i) written"
    using each unfolding execInstruction_Inr by blast
  with lens first last show ?thesis by blast
qed

lemma execProposedTx_untouched:
  assumes "body inst = Invoke cid ''execProposedTx'' args"
      and "contractDeferred_Invoke s rst inst coins c = Returns (c', sc, cout, None)"
  shows "length cout = length coins"
    and "(\<forall>name fn buf contract p cs.
            GetContractConstructor (registry s) name = Some fn \<and> fn buf = Inr contract \<longrightarrow>
            leftInSlice cs (fst (targetCall contract rst p cs)) = cs) \<Longrightarrow> cout = coins"
proof -
  from execProposedTx_returns[OF assms] obtain ids nested where
    loop: "execLoop s rst coins (InstructionHashes c) 0 (Instructions (ProposedTransaction c)) [] []
             = Returns (Inr (ids, nested, cout))"
    by blast
  from execLoop_length[OF loop] show "length cout = length coins" .
  assume "\<forall>name fn buf contract p cs.
            GetContractConstructor (registry s) name = Some fn \<and> fn buf = Inr contract \<longrightarrow>
            leftInSlice cs (fst (targetCall contract rst p cs)) = cs"
  then have "\<And>name fn buf contract p cs.
             GetContractConstructor (registry s) name = Some fn \<Longrightarrow> fn buf = Inr contract \<Longrightarrow>
             leftInSlice cs (fst (targetCall contract rst p cs)) = cs"
    by blast
  from execLoop_untouched[OF this loop] show "cout = coins" .
qed

lemma fixture_coinService_untouched:
  "\<forall>name fn buf contract p cs.
     GetContractConstructor (registry coinService) name = Some fn \<and> fn buf = Inr contract \<longrightarrow>
     leftInSlice cs (fst (targetCall contract rst p cs)) = cs"
proof (intro allI impI)
  fix name fn buf contract p cs
  assume a: "GetContractConstructor (registry coinService) name = Some fn \<and> fn buf = Inr contract"
  then have "contract = coinContract"
    by (auto simp: coinService_def GetContractConstructor_def RegisterContract_def NewContractRegistry_def
        split: if_splits)
  then show "leftInSlice cs (fst (targetCall contract rst p cs)) = cs"
    by (cases "body p") (simp_all add: targetCall_def coinContract_def leftInSlice_def)
qed

lemma fixture_exec_coinService:
  "contractDeferred_Invoke coinService (testTrie n) execInst coins (testData 1 e [coinTransfer])
     = Returns ((testData 1 e [coinTransfer])\<lparr>ExecResult := [[255, 7]], NumExecution := 0\<rparr>,
                [NewStateChange Update [7] ''coin'' [1] [9],
                 NewStateChange Update [255, 3] ''deferred'' [0] [9]],
                coins, None)"
proof -
  have reg: "GetContractConstructor (registry coinService) ''coin'' = Some (\<lambda>buf. Inr coinContract)"
    by (simp add: coinService_def GetContractConstructor_def RegisterContract_def)
  have fields: "encodeInstruction coinService i = Some (InstanceID i)"
               "DeriveID coinService i what = 255 # InstanceID i"
               "encodeDeferredData coinService d = Some [ucast (NumExecution d)]" for i what d
    by (simp_all add: coinService_def testService_def)
  have step: "execInstruction coinService (testTrie n) coins (InstructionHashes (testData 1 e [coinTransfer])) 0
                coinTransfer
              = Returns (Inr (coins, [NewStateChange Update [7] ''coin'' [1] [9]]))"
    by (simp add: execInstruction_def proposedContractID_def GetType_def coinTransfer_def
        dispatch_def coinContract_def reg fields leftInSlice_def fixture_hashes_length)
  have loop: "execLoop coinService (testTrie n) coins (InstructionHashes (testData 1 e [coinTransfer])) 0
                [coinTransfer] [] []
              = Returns (Inr ([[255, 7]], [NewStateChange Update [7] ''coin'' [1] [9]], coins))"
    by (simp add: step fields) (simp add: coinTransfer_def)
  show ?thesis
    unfolding contractDeferred_Invoke_def execProposedTx_def fixture_instrs loop
    by (simp add: fixture_GetValues execInst_def fields ContractDeferredID_def)
      (simp add: testData_def)
qed

text \<open>
  C10 (as the code has it). The coins that an operation of the deferred contract
  returns. Spawn returns the coins it was passed when it succeeds or when the instance
  is not found in the trie, and no coins with any other error. Delete always returns the
  coins it was passed. Invoke with an error returns the coins it was passed when the
  instance is not found in the trie, and no coins otherwise. A successful \<open>addProof\<close>
  returns the coins it was passed. A successful \<open>execProposedTx\<close> returns its coin slice
  as the nested calls left it: the slice is handed to the target contract of each
  proposed instruction in turn, \<open>slices ! i\<close> being the coins the calls before
  instruction \<open>i\<close> left in it; what a target contract writes into the slice stays there,
  the number of coins stays the same, and the coin outputs that the target contracts
  return are not used. If no contract of the registry writes into the slice it is
  handed, the coins returned are the coins passed, unchanged.
\<close>

theorem deferred_returns_coins:
  fixes c :: deferredData
  defines "instrs \<equiv> Instructions (ProposedTransaction c)"
  shows
  "(contractDeferred_Spawn s rst inst coins = Returns (sc, cout, err) \<longrightarrow>
      cout = (if err = None \<or> (\<exists>e. GetValues rst (InstanceID inst) = Inl e) then coins else [])) \<and>
   (contractDeferred_Delete rst inst coins = Returns (sc, cout, err) \<longrightarrow> cout = coins) \<and>
   (contractDeferred_Invoke s rst inst coins c = Returns (c', sc, cout, err) \<longrightarrow>
      (err \<noteq> None \<longrightarrow>
         cout = (if (\<exists>e. GetValues rst (InstanceID inst) = Inl e) then coins else [])) \<and>
      (err = None \<and> Command (body inst) = ''addProof'' \<longrightarrow> cout = coins) \<and>
      (err = None \<and> Command (body inst) = ''execProposedTx'' \<longrightarrow>
         length cout = length coins \<and>
         (\<exists>slices. length slices = Suc (length instrs) \<and> slices ! 0 = coins \<and>
            slices ! length instrs = cout \<and>
            (\<forall>i<length instrs. \<exists>fn buf contract written scs cout'.
               GetContractConstructor (registry s) (targetContractID (body (instrs ! i))) = Some fn \<and>
               encodeInstruction s (instrs ! i) = Some buf \<and>
               fn buf = Inr contract \<and>
               targetCall contract rst (instrs ! i) (slices ! i) = (written, scs, cout', None) \<and>
               slices ! Suc i = leftInSlice (slices ! i) written)) \<and>
         ((\<forall>name fn buf contract p cs.
              GetContractConstructor (registry s) name = Some fn \<and> fn buf = Inr contract \<longrightarrow>
              leftInSlice cs (fst (targetCall contract rst p cs)) = cs) \<longrightarrow>
          cout = coins)))"
proof (intro conjI impI)
  assume "contractDeferred_Spawn s rst inst coins = Returns (sc, cout, err)"
  then show "cout = (if err = None \<or> (\<exists>e. GetValues rst (InstanceID inst) = Inl e) then coins else [])"
    by (rule Spawn_coins)
next
  assume "contractDeferred_Delete rst inst coins = Returns (sc, cout, err)"
  then show "cout = coins" by (rule Delete_coins)
next
  assume "contractDeferred_Invoke s rst inst coins c = Returns (c', sc, cout, err)" and "err \<noteq> None"
  then obtain e where "contractDeferred_Invoke s rst inst coins c = Returns (c', sc, cout, Some e)"
    by auto
  then show "cout = (if (\<exists>e. GetValues rst (InstanceID inst) = Inl e) then coins else [])"
    by (rule Invoke_error_coins)
next
  assume "contractDeferred_Invoke s rst inst coins c = Returns (c', sc, cout, err)"
    and "err = None \<and> Command (body inst) = ''addProof''"
  then show "cout = coins"
    using addProof_success_coins[of s rst inst coins c c' sc cout] by simp
next
  assume r: "contractDeferred_Invoke s rst inst coins c = Returns (c', sc, cout, err)"
    and e: "err = None \<and> Command (body inst) = ''execProposedTx''"
  from r e have ok: "contractDeferred_Invoke s rst inst coins c = Returns (c', sc, cout, None)"
    by simp
  from execProposedTx_body[OF ok] e obtain cid args where b: "body inst = Invoke cid ''execProposedTx'' args"
    by blast
  show "length cout = length coins"
    by (rule execProposedTx_untouched(1)[OF b ok])
  show "\<exists>slices. length slices = Suc (length instrs) \<and> slices ! 0 = coins \<and>
            slices ! length instrs = cout \<and>
            (\<forall>i<length instrs. \<exists>fn buf contract written scs cout'.
               GetContractConstructor (registry s) (targetContractID (body (instrs ! i))) = Some fn \<and>
               encodeInstruction s (instrs ! i) = Some buf \<and>
               fn buf = Inr contract \<and>
               targetCall contract rst (instrs ! i) (slices ! i) = (written, scs, cout', None) \<and>
               slices ! Suc i = leftInSlice (slices ! i) written)"
    unfolding instrs_def by (rule execProposedTx_slices[OF b ok])
  assume "\<forall>name fn buf contract p cs.
              GetContractConstructor (registry s) name = Some fn \<and> fn buf = Inr contract \<longrightarrow>
              leftInSlice cs (fst (targetCall contract rst p cs)) = cs"
  then show "cout = coins"
    by (rule execProposedTx_untouched(2)[OF b ok])
qed

text \<open>
  On the small ledger, with one coin of value 5. Spawn, Delete and \<open>addProof\<close> return
  the coin; an Invoke with an unknown command returns no coins. With the registry that
  holds \<open>coin\<close> alone, whose Invoke hands back no coins, \<open>execProposedTx\<close> returns the
  coin. With the two proposed instructions, the slice holds the coin of value 5 before
  either, and what is returned holds one coin.
\<close>

theorem deferred_returns_coins_witness:
  "contractDeferred_Spawn testService (testTrie 10) spawnInst [\<lparr>coin_Name = [1], coin_Value = 5\<rparr>]
     = Returns ([NewStateChange Create [255, 3] ''deferred'' [1] [9]],
                [\<lparr>coin_Name = [1], coin_Value = 5\<rparr>], None) \<and>
   contractDeferred_Delete (testTrie 30) execInst [\<lparr>coin_Name = [1], coin_Value = 5\<rparr>]
     = Returns ([NewStateChange Remove [255, 3] ''deferred'' [] [9]],
                [\<lparr>coin_Name = [1], coin_Value = 5\<rparr>], None) \<and>
   contractDeferred_Invoke testService (testTrie 20)
       (execInst\<lparr>body := Invoke ''deferred'' ''other'' []\<rparr>) [\<lparr>coin_Name = [1], coin_Value = 5\<rparr>]
       (testData 1 100 [coinTransfer])
     = Returns (testData 1 100 [coinTransfer], [], [], Some OnlyAddProofAndExec) \<and>
   (\<exists>c' sc. contractDeferred_Invoke testService (testTrie 10)
               (addProofInst [0, 0, 0, 0] [65] (hashDeferred (\<lambda>b. b) coinTransfer [3]))
               [\<lparr>coin_Name = [1], coin_Value = 5\<rparr>] (testData 1 100 [coinTransfer])
             = Returns (c', sc, [\<lparr>coin_Name = [1], coin_Value = 5\<rparr>], None)) \<and>
   snd (snd (targetCall coinContract (testTrie 20) coinTransfer [\<lparr>coin_Name = [1], coin_Value = 5\<rparr>]))
     = ([], None) \<and>
   (\<exists>c' sc. contractDeferred_Invoke coinService (testTrie 20) execInst [\<lparr>coin_Name = [1], coin_Value = 5\<rparr>]
               (testData 1 100 [coinTransfer])
             = Returns (c', sc, [\<lparr>coin_Name = [1], coin_Value = 5\<rparr>], None)) \<and>
   (\<exists>c' sc cout slices.
      contractDeferred_Invoke testService (testTrie 20) execInst [\<lparr>coin_Name = [1], coin_Value = 5\<rparr>]
          (testData 1 100 [coinTransfer, paySpawn])
        = Returns (c', sc, cout, None) \<and>
      length cout = 1 \<and> length slices = 3 \<and>
      slices ! 0 = [\<lparr>coin_Name = [1], coin_Value = 5\<rparr>] \<and> slices ! 2 = cout)"
proof -
  let ?coins = "[\<lparr>coin_Name = [1], coin_Value = (5 :: 64 word)\<rparr>]"
  let ?c = "testData 1 100 [coinTransfer]"
  let ?c2 = "testData 1 100 [coinTransfer, paySpawn]"
  let ?other = "execInst\<lparr>body := Invoke ''deferred'' ''other'' []\<rparr>"
  note h1 = fixture_spawn_succeeds[of 10 ?coins]
  note h3 = fixture_delete_succeeds[of 30 ?coins]
  have d: "snd (snd (targetCall coinContract (testTrie 20) coinTransfer ?coins)) = ([], None)"
    by (simp add: targetCall_def coinTransfer_def coinContract_def)
  have other: "contractDeferred_Invoke testService (testTrie 20) ?other ?coins ?c
                 = Returns (?c, [], [], Some OnlyAddProofAndExec)"
    by (simp add: contractDeferred_Invoke_def fixture_GetValues)
  from verifiedInvoke_success[OF fixture_addProof_succeeds[of ?coins]]
  have ap: "\<exists>c' sc. contractDeferred_Invoke testService (testTrie 10)
               (addProofInst [0, 0, 0, 0] [65] (hashDeferred (\<lambda>b. b) coinTransfer [3])) ?coins ?c
             = Returns (c', sc, ?coins, None)"
    by blast
  have cmd: "Command (body execInst) = ''execProposedTx''"
    by (simp add: execInst_def)
  obtain c' sc cout where
    r: "contractDeferred_Invoke coinService (testTrie 20) execInst ?coins ?c = Returns (c', sc, cout, None)"
    using fixture_exec_coinService[of 20 ?coins 100] by blast
  from deferred_returns_coins[where s = coinService and rst = "testTrie 20" and inst = execInst
      and coins = ?coins and c = ?c and c' = c' and sc = sc and cout = cout and err = None]
    r cmd fixture_coinService_untouched[of "testTrie 20"]
  have "cout = ?coins" by blast
  with r have quiet: "\<exists>c' sc. contractDeferred_Invoke coinService (testTrie 20) execInst ?coins ?c
             = Returns (c', sc, ?coins, None)"
    by blast
  obtain c2' sc2 cout2 where
    r2: "contractDeferred_Invoke testService (testTrie 20) execInst ?coins ?c2 = Returns (c2', sc2, cout2, None)"
    using fixture_exec_pay[of 20 100] by blast
  from deferred_returns_coins[where s = testService and rst = "testTrie 20" and inst = execInst
      and coins = ?coins and c = ?c2 and c' = c2' and sc = sc2 and cout = cout2 and err = None]
    r2 cmd
  have "length cout2 = length ?coins \<and>
        (\<exists>slices. length slices = Suc (length (Instructions (ProposedTransaction ?c2))) \<and>
           slices ! 0 = ?coins \<and> slices ! length (Instructions (ProposedTransaction ?c2)) = cout2)"
    by blast
  then have "length cout2 = 1 \<and> (\<exists>slices. length slices = 3 \<and> slices ! 0 = ?coins \<and> slices ! 2 = cout2)"
    by (simp add: fixture_instrs numeral_2_eq_2 numeral_3_eq_3)
  with r2 have pay: "\<exists>c' sc cout slices.
      contractDeferred_Invoke testService (testTrie 20) execInst ?coins ?c2 = Returns (c', sc, cout, None) \<and>
      length cout = 1 \<and> length slices = 3 \<and> slices ! 0 = ?coins \<and> slices ! 2 = cout"
    by blast
  from h1 h3 other ap d quiet pay show ?thesis by blast
qed

text \<open>
  The claim as stated fails on the small ledger. The Spawn of \<open>pay\<close>, like
  \<^verbatim>\<open>ContractWrite.Spawn\<close>, writes the coin less its price into the slice it is handed: the
  \<open>execProposedTx\<close> that was passed one coin of value 5 returns a coin of value 4.
  And an Invoke with an unknown command returns its error with no coins.
\<close>

theorem deferred_returns_coins_counterexample:
  "contractDeferred_Invoke testService (testTrie 20) execInst [\<lparr>coin_Name = [1], coin_Value = 5\<rparr>]
       (testData 1 100 [coinTransfer, paySpawn])
     = Returns ((testData 1 100 [coinTransfer, paySpawn])\<lparr>ExecResult := [[255, 7], [255, 6]], NumExecution := 0\<rparr>,
                [NewStateChange Update [7] ''coin'' [1] [9],
                 NewStateChange Create [255, 6] ''pay'' [2] [9],
                 NewStateChange Update [6] ''pay'' [3] [9],
                 NewStateChange Update [255, 3] ''deferred'' [0] [9]],
                [\<lparr>coin_Name = [1], coin_Value = 4\<rparr>], None) \<and>
   [\<lparr>coin_Name = [1], coin_Value = 4 :: 64 word\<rparr>] \<noteq> [\<lparr>coin_Name = [1], coin_Value = 5\<rparr>] \<and>
   contractDeferred_Invoke testService (testTrie 20)
       (execInst\<lparr>body := Invoke ''deferred'' ''other'' []\<rparr>) [\<lparr>coin_Name = [1], coin_Value = 5\<rparr>]
       (testData 1 100 [coinTransfer])
     = Returns (testData 1 100 [coinTransfer], [], [], Some OnlyAddProofAndExec) \<and>
   [] \<noteq> [\<lparr>coin_Name = [1], coin_Value = 5 :: 64 word\<rparr>]"
proof -
  have other: "contractDeferred_Invoke testService (testTrie 20)
       (execInst\<lparr>body := Invoke ''deferred'' ''other'' []\<rparr>) [\<lparr>coin_Name = [1], coin_Value = 5\<rparr>]
       (testData 1 100 [coinTransfer])
     = Returns (testData 1 100 [coinTransfer], [], [], Some OnlyAddProofAndExec)"
    by (simp add: contractDeferred_Invoke_def fixture_GetValues)
  have ne: "[\<lparr>coin_Name = [1], coin_Value = 4 :: 64 word\<rparr>] \<noteq> [\<lparr>coin_Name = [1], coin_Value = 5\<rparr>]"
    by simp
  from fixture_exec_pay[of 20 100] ne other show ?thesis
    by simp
qed

end
